theory Spec2Isabelle
  imports Main
begin

section \<open>JavaScript values and the host interface\<close>

text \<open>
  The block tools of this repository are small classes driven by the host editor:
  a constructor, \<open>render\<close>, \<open>save\<close>, and for the typed tool \<open>renderSettings\<close> with
  its click handlers. Four classes are in the sources:
  \<^item> \<open>Warning\<close> of \<open>src/index.ts\<close> (TypeScript; it is there twice, with the same code),
  \<^item> \<open>Success\<close> of \<open>src/index.js\<close>,
  \<^item> the older \<open>Warning\<close> of \<open>src/index.js\<close> (for CodeX Editor; called legacy below),
  \<^item> the typed \<open>Warning\<close> (alert with a selectable type) at the end of \<open>src/index.ts\<close>;
    its names carry the prefix \<open>Alert\<close> here, after its method \<open>_changeAlertType\<close>.

  A string-valued property that may be absent is a \<open>string option\<close>: \<open>None\<close> is
  JavaScript's \<open>undefined\<close>. An exception is a value \<open>Inl e\<close> of the result type.
\<close>

datatype error = TypeError

text \<open>\<open>x || d\<close> for a string or \<open>undefined\<close> \<open>x\<close>: the empty string is falsy as well.\<close>

fun js_or :: "string option \<Rightarrow> string \<Rightarrow> string" where
  "js_or None d = d"
| "js_or (Some s) d = (if s = [] then d else s)"

text \<open>\<open>x ?? d\<close>: only \<open>undefined\<close> (and \<open>null\<close>) give the default.\<close>

fun js_nullish :: "string option \<Rightarrow> string \<Rightarrow> string" where
  "js_nullish None d = d"
| "js_nullish (Some s) d = s"

text \<open>String conversion, as in a template literal or an assignment to a DOM string property.\<close>

fun toString :: "string option \<Rightarrow> string" where
  "toString None = ''undefined''"
| "toString (Some s) = s"

text \<open>Truthiness of a string or \<open>undefined\<close>.\<close>

fun truthy :: "string option \<Rightarrow> bool" where
  "truthy None = False"
| "truthy (Some s) = (s \<noteq> [])"

text \<open>
  The part of the host's \<open>api\<close> object the tools read: four class names of
  \<open>api.styles\<close> and the translation function \<open>api.i18n.t\<close>. Their values belong to the
  host, so they are parameters here.
\<close>

record API =
  styles_block :: string
  styles_input :: string
  styles_settingsButton :: string
  styles_settingsButtonActive :: string
  i18n_t :: "string \<Rightarrow> string"

text \<open>The class names Editor.js provides, with the identity as translation.\<close>

definition host_api :: API where
  "host_api = \<lparr>styles_block = ''cdx-block'', styles_input = ''cdx-input'',
               styles_settingsButton = ''cdx-settings-button'',
               styles_settingsButtonActive = ''cdx-settings-button--active'',
               i18n_t = id\<rparr>"

section \<open>Data and configuration objects\<close>

text \<open>\<open>WarningData\<close>: the data of the title and message tools, on input and on output.\<close>

record WarningData =
  title :: "string option"
  message :: "string option"

text \<open>\<open>WarningConfig\<close>: both placeholders are optional.\<close>

record WarningConfig =
  cfg_titlePlaceholder :: "string option"
  cfg_messagePlaceholder :: "string option"

text \<open>Data of the typed tool: \<open>{ type, message }\<close>.\<close>

record AlertData =
  alert_type :: "string option"
  alert_message :: "string option"

text \<open>
  Configuration of the typed tool. \<open>typeColor\<close> is an object from type names to
  colours: an association list in the order \<open>Object.keys\<close> enumerates it, or \<open>None\<close>
  when the entry is absent.
\<close>

record AlertConfig =
  acfg_messagePlaceholder :: "string option"
  acfg_defaultType :: "string option"
  acfg_typeColor :: "(string \<times> string) list option"

section \<open>DOM elements\<close>

text \<open>
  An element carries the properties the tools write and read, and its element
  children. The field \<open>innerHTML\<close> is what the getter returns for an element whose
  content was assigned through \<open>innerHTML\<close>; text nodes are kept in that string only.
  Validation of class tokens and colour values by the browser is not modelled.
\<close>

record props =
  tagName :: string
  classList :: "string list"
  contentEditable :: string
  innerHTML :: string
  dataset_placeholder :: "string option"
  style_backgroundColor :: "string option"

datatype element = Element (node: props) (childNodes: "element list")

definition createElement :: "string \<Rightarrow> element" where
  "createElement tag =
     Element \<lparr>tagName = tag, classList = [], contentEditable = ''inherit'', innerHTML = [],
              dataset_placeholder = None, style_backgroundColor = None\<rparr> []"

text \<open>\<open>classList.add\<close> and \<open>classList.remove\<close> on the ordered token set.\<close>

definition tokens_add :: "string \<Rightarrow> string list \<Rightarrow> string list" where
  "tokens_add c cs = (if c \<in> set cs then cs else cs @ [c])"

definition tokens_remove :: "string \<Rightarrow> string list \<Rightarrow> string list" where
  "tokens_remove c cs = filter (\<lambda>x. x \<noteq> c) cs"

fun classList_add :: "string list \<Rightarrow> element \<Rightarrow> element" where
  "classList_add cs (Element p ch) = Element (p\<lparr>classList := foldl (\<lambda>acc c. tokens_add c acc) (classList p) cs\<rparr>) ch"

fun classList_remove :: "string \<Rightarrow> element \<Rightarrow> element" where
  "classList_remove c (Element p ch) = Element (p\<lparr>classList := tokens_remove c (classList p)\<rparr>) ch"

definition hasClass :: "string \<Rightarrow> element \<Rightarrow> bool" where
  "hasClass c el = (c \<in> set (classList (node el)))"

fun appendChild :: "element \<Rightarrow> element \<Rightarrow> element" where
  "appendChild (Element p ch) child = Element p (ch @ [child])"

fun set_placeholder :: "string \<Rightarrow> element \<Rightarrow> element" where
  "set_placeholder s (Element p ch) = Element (p\<lparr>dataset_placeholder := Some s\<rparr>) ch"

fun set_backgroundColor :: "string option \<Rightarrow> element \<Rightarrow> element" where
  "set_backgroundColor c (Element p ch) = Element (p\<lparr>style_backgroundColor := c\<rparr>) ch"

subsection \<open>Assigning and reading \<open>innerHTML\<close>\<close>

text \<open>
  Assigning \<open>innerHTML\<close> runs the browser's fragment parser on the string, and reading
  it serialises the nodes the parser made. A string is left to the tokenizer when it
  holds \<open><\<close>, a NUL or a carriage return (dropped or replaced before tokenizing), or
  an \<open>&\<close> followed by a letter, a digit or \<open>#\<close> (the start of a character
  reference). Every other string becomes one text node holding the string itself,
  or no node when it is empty.
\<close>

definition is_alnum :: "char \<Rightarrow> bool" where
  "is_alnum c =
     (c \<in> set ''abcdefghijklmnopqrstuvwxyzABCDEFGHIJKLMNOPQRSTUVWXYZ0123456789'')"

fun charref_start :: "string \<Rightarrow> bool" where
  "charref_start (a # b # cs) =
     ((a = CHR ''&'' \<and> (is_alnum b \<or> b = CHR ''#'')) \<or> charref_start (b # cs))"
| "charref_start cs = False"

definition needs_tokenizer :: "string \<Rightarrow> bool" where
  "needs_tokenizer s =
     (CHR ''<'' \<in> set s \<or> CHR 0x00 \<in> set s \<or> CHR 0x0D \<in> set s \<or> charref_start s)"

text \<open>
  Serialising a text node escapes \<open>&\<close>, \<open><\<close>, \<open>>\<close> and the no-break space
  (U+00A0, the bytes \<open>C2 A0\<close> of a string in UTF-8).
\<close>

definition escape_char :: "char \<Rightarrow> string" where
  "escape_char c =
     (if c = CHR ''&'' then ''&amp;''
      else if c = CHR ''<'' then ''&lt;''
      else if c = CHR ''>'' then ''&gt;''
      else [c])"

fun escape_text :: "string \<Rightarrow> string" where
  "escape_text (a # b # cs) =
     (if a = CHR 0xC2 \<and> b = CHR 0xA0 then ''&nbsp;'' @ escape_text cs
      else escape_char a @ escape_text (b # cs))"
| "escape_text [a] = escape_char a"
| "escape_text [] = []"

text \<open>
  The tokenizer and the tree builder belong to the browser. For a string left to
  them, \<open>parse_elements\<close> gives the element children the parser makes of it and
  \<open>parse_serialize\<close> the string \<open>innerHTML\<close> then returns; both are parameters here.
\<close>

record browser =
  parse_elements :: "string \<Rightarrow> element list"
  parse_serialize :: "string \<Rightarrow> string"

text \<open>The element children after \<open>el.innerHTML = s\<close>, and what \<open>el.innerHTML\<close> then is.\<close>

definition innerHTML_children :: "browser \<Rightarrow> string \<Rightarrow> element list" where
  "innerHTML_children br s = (if needs_tokenizer s then parse_elements br s else [])"

definition innerHTML_read :: "browser \<Rightarrow> string \<Rightarrow> string" where
  "innerHTML_read br s = (if needs_tokenizer s then parse_serialize br s else escape_text s)"

fun set_innerHTML :: "browser \<Rightarrow> string \<Rightarrow> element \<Rightarrow> element" where
  "set_innerHTML br s (Element p ch) =
     Element (p\<lparr>innerHTML := innerHTML_read br s\<rparr>) (innerHTML_children br s)"

text \<open>
  \<open>querySelector('.' + c)\<close>: the first descendant carrying class \<open>c\<close>, in document
  order; the root itself is not a candidate. \<open>None\<close> is JavaScript's \<open>null\<close>.
\<close>

fun querySelector :: "string \<Rightarrow> element \<Rightarrow> element option"
  and querySelector_list :: "string \<Rightarrow> element list \<Rightarrow> element option" where
  "querySelector c (Element p ch) = querySelector_list c ch"
| "querySelector_list c [] = None"
| "querySelector_list c (e # es) =
     (if hasClass c e then Some e
      else (case querySelector c e of Some d \<Rightarrow> Some d | None \<Rightarrow> querySelector_list c es))"

text \<open>The two forms of the \<open>classNames\<close> argument of \<open>_make\<close>, and its default \<open>null\<close>.\<close>

datatype classNames = Names "string list" | Name string | NoNames

text \<open>The attributes the tools pass to \<open>_make\<close>, in the order of the object literal.\<close>

datatype attribute = ContentEditable bool | InnerHTML "string option"

fun assign_attribute :: "browser \<Rightarrow> element \<Rightarrow> attribute \<Rightarrow> element" where
  "assign_attribute br (Element p ch) (ContentEditable b) =
     Element (p\<lparr>contentEditable := (if b then ''true'' else ''false'')\<rparr>) ch"
| "assign_attribute br el (InnerHTML v) = set_innerHTML br (toString v) el"

text \<open>\<open>_make(tagName, classNames, attributes)\<close>, the same helper in every class.\<close>

definition make_el :: "browser \<Rightarrow> string \<Rightarrow> classNames \<Rightarrow> attribute list \<Rightarrow> element" where
  "make_el br tag classNames attributes =
     (let el = createElement tag;
          el = (case classNames of
                  Names cs \<Rightarrow> classList_add cs el
                | Name c \<Rightarrow> (if c \<noteq> [] then classList_add [c] el else el)
                | NoNames \<Rightarrow> el)
      in foldl (assign_attribute br) el attributes)"

definition isEditable :: "element \<Rightarrow> bool" where
  "isEditable el = (contentEditable (node el) = ''true'')"

section \<open>The title and message tools\<close>

record CSS =
  css_baseClass :: string
  css_wrapper :: string
  css_title :: string
  css_input :: string
  css_message :: string

text \<open>
  The fields a \<open>Success\<close> or legacy \<open>Warning\<close> instance holds; the TypeScript \<open>Warning\<close>
  has \<open>readOnly\<close> in addition.
\<close>

record Tool =
  api :: API
  titlePlaceholder :: string
  messagePlaceholder :: string
  data :: WarningData

record WarningTool = Tool +
  readOnly :: bool

definition DEFAULT_TITLE_PLACEHOLDER :: string where
  "DEFAULT_TITLE_PLACEHOLDER = ''Title''"

definition DEFAULT_MESSAGE_PLACEHOLDER :: string where
  "DEFAULT_MESSAGE_PLACEHOLDER = ''Message''"

subsection \<open>\<open>Warning\<close> (TypeScript)\<close>

definition Warning_CSS :: "WarningTool \<Rightarrow> CSS" where
  "Warning_CSS this =
     \<lparr>css_baseClass = styles_block (api this), css_wrapper = ''cdx-warning'',
      css_title = ''cdx-warning__title'', css_input = styles_input (api this),
      css_message = ''cdx-warning__message''\<rparr>"

text \<open>
  The constructor takes \<open>{ data, config, api, readOnly }\<close>; \<open>config\<close> is optional and
  read through \<open>config?.\<close>, so \<open>None\<close> (no configuration object) is accepted.
\<close>

definition Warning_constructor ::
  "WarningData \<Rightarrow> WarningConfig option \<Rightarrow> API \<Rightarrow> bool \<Rightarrow> error + WarningTool" where
  "Warning_constructor d config a ro =
     Inr \<lparr>api = a,
          titlePlaceholder =
            js_or (case config of None \<Rightarrow> None | Some c \<Rightarrow> cfg_titlePlaceholder c)
                  DEFAULT_TITLE_PLACEHOLDER,
          messagePlaceholder =
            js_or (case config of None \<Rightarrow> None | Some c \<Rightarrow> cfg_messagePlaceholder c)
                  DEFAULT_MESSAGE_PLACEHOLDER,
          data = \<lparr>title = Some (js_or (title d) []), message = Some (js_or (message d) [])\<rparr>,
          readOnly = ro\<rparr>"

definition Warning_render :: "browser \<Rightarrow> WarningTool \<Rightarrow> element" where
  "Warning_render br this =
     (let container = make_el br ''div'' (Names [css_baseClass (Warning_CSS this), css_wrapper (Warning_CSS this)]) [];
          title_el = make_el br ''div'' (Names [css_input (Warning_CSS this), css_title (Warning_CSS this)])
                       [ContentEditable (\<not> readOnly this), InnerHTML (title (data this))];
          message_el = make_el br ''div'' (Names [css_input (Warning_CSS this), css_message (Warning_CSS this)])
                       [ContentEditable (\<not> readOnly this), InnerHTML (message (data this))];
          title_el = set_placeholder (titlePlaceholder this) title_el;
          message_el = set_placeholder (messagePlaceholder this) message_el;
          container = appendChild container title_el;
          container = appendChild container message_el
      in container)"

text \<open>
  \<open>save\<close> returns the saved data and the tool with its \<open>data\<close> updated in place
  (\<open>Object.assign(this.data, ...)\<close> returns \<open>this.data\<close> itself).
\<close>

definition Warning_save :: "WarningTool \<Rightarrow> element \<Rightarrow> error + (WarningData \<times> WarningTool)" where
  "Warning_save this warningElement =
     (let title_el = querySelector (css_title (Warning_CSS this)) warningElement;
          message_el = querySelector (css_message (Warning_CSS this)) warningElement;
          d = (data this)\<lparr>
                title := Some (js_nullish (map_option (\<lambda>e. innerHTML (node e)) title_el) []),
                message := Some (js_nullish (map_option (\<lambda>e. innerHTML (node e)) message_el) [])\<rparr>
      in Inr (d, this\<lparr>data := d\<rparr>))"

definition Warning_sanitize :: "(string \<times> string list) list" where
  "Warning_sanitize = [(''title'', []), (''message'', [])]"

subsection \<open>\<open>Success\<close> (JavaScript)\<close>

text \<open>
  \<open>Success\<close> destructures \<open>{ data, config, api }\<close> only: a \<open>readOnly\<close> entry of the
  constructor argument is not read. \<open>config\<close> is dereferenced without a guard.
\<close>

definition Success_CSS :: "Tool \<Rightarrow> CSS" where
  "Success_CSS this =
     \<lparr>css_baseClass = styles_block (api this), css_wrapper = ''cdx-success'',
      css_title = ''cdx-success__title'', css_input = styles_input (api this),
      css_message = ''cdx-success__message''\<rparr>"

definition Success_constructor ::
  "WarningData \<Rightarrow> WarningConfig option \<Rightarrow> API \<Rightarrow> bool \<Rightarrow> error + Tool" where
  "Success_constructor d config a ro =
     (case config of
        None \<Rightarrow> Inl TypeError
      | Some c \<Rightarrow>
          Inr \<lparr>api = a,
               titlePlaceholder = js_or (cfg_titlePlaceholder c) DEFAULT_TITLE_PLACEHOLDER,
               messagePlaceholder = js_or (cfg_messagePlaceholder c) DEFAULT_MESSAGE_PLACEHOLDER,
               data = \<lparr>title = Some (js_or (title d) []), message = Some (js_or (message d) [])\<rparr>\<rparr>)"

definition Success_render :: "browser \<Rightarrow> Tool \<Rightarrow> element" where
  "Success_render br this =
     (let container = make_el br ''div'' (Names [css_baseClass (Success_CSS this), css_wrapper (Success_CSS this)]) [];
          title_el = make_el br ''div'' (Names [css_input (Success_CSS this), css_title (Success_CSS this)])
                       [ContentEditable True, InnerHTML (title (data this))];
          message_el = make_el br ''div'' (Names [css_input (Success_CSS this), css_message (Success_CSS this)])
                       [ContentEditable True, InnerHTML (message (data this))];
          title_el = set_placeholder (titlePlaceholder this) title_el;
          message_el = set_placeholder (messagePlaceholder this) message_el;
          container = appendChild container title_el;
          container = appendChild container message_el
      in container)"

text \<open>\<open>title.innerHTML\<close> on a \<open>null\<close> query result raises a \<open>TypeError\<close>.\<close>

definition Success_save :: "Tool \<Rightarrow> element \<Rightarrow> error + (WarningData \<times> Tool)" where
  "Success_save this successElement =
     (let title_el = querySelector (css_title (Success_CSS this)) successElement;
          message_el = querySelector (css_message (Success_CSS this)) successElement
      in case title_el of
           None \<Rightarrow> Inl TypeError
         | Some t \<Rightarrow>
             (case message_el of
                None \<Rightarrow> Inl TypeError
              | Some m \<Rightarrow>
                  (let d = (data this)\<lparr>title := Some (innerHTML (node t)),
                                         message := Some (innerHTML (node m))\<rparr>
                   in Inr (d, this\<lparr>data := d\<rparr>))))"

definition Success_sanitize :: "(string \<times> string list) list" where
  "Success_sanitize = [(''title'', []), (''message'', [])]"

subsection \<open>Legacy \<open>Warning\<close> (JavaScript)\<close>

text \<open>The legacy class is \<open>Success\<close> with other class names; it has no \<open>sanitize\<close> getter.\<close>

definition Legacy_CSS :: "Tool \<Rightarrow> CSS" where
  "Legacy_CSS this =
     \<lparr>css_baseClass = styles_block (api this), css_wrapper = ''cdx-warning'',
      css_title = ''cdx-warning__title'', css_input = styles_input (api this),
      css_message = ''cdx-warning__message''\<rparr>"

definition Legacy_constructor ::
  "WarningData \<Rightarrow> WarningConfig option \<Rightarrow> API \<Rightarrow> bool \<Rightarrow> error + Tool" where
  "Legacy_constructor d config a ro =
     (case config of
        None \<Rightarrow> Inl TypeError
      | Some c \<Rightarrow>
          Inr \<lparr>api = a,
               titlePlaceholder = js_or (cfg_titlePlaceholder c) DEFAULT_TITLE_PLACEHOLDER,
               messagePlaceholder = js_or (cfg_messagePlaceholder c) DEFAULT_MESSAGE_PLACEHOLDER,
               data = \<lparr>title = Some (js_or (title d) []), message = Some (js_or (message d) [])\<rparr>\<rparr>)"

definition Legacy_render :: "browser \<Rightarrow> Tool \<Rightarrow> element" where
  "Legacy_render br this =
     (let container = make_el br ''div'' (Names [css_baseClass (Legacy_CSS this), css_wrapper (Legacy_CSS this)]) [];
          title_el = make_el br ''div'' (Names [css_input (Legacy_CSS this), css_title (Legacy_CSS this)])
                       [ContentEditable True, InnerHTML (title (data this))];
          message_el = make_el br ''div'' (Names [css_input (Legacy_CSS this), css_message (Legacy_CSS this)])
                       [ContentEditable True, InnerHTML (message (data this))];
          title_el = set_placeholder (titlePlaceholder this) title_el;
          message_el = set_placeholder (messagePlaceholder this) message_el;
          container = appendChild container title_el;
          container = appendChild container message_el
      in container)"

definition Legacy_save :: "Tool \<Rightarrow> element \<Rightarrow> error + (WarningData \<times> Tool)" where
  "Legacy_save this warningElement =
     (let title_el = querySelector (css_title (Legacy_CSS this)) warningElement;
          message_el = querySelector (css_message (Legacy_CSS this)) warningElement
      in case title_el of
           None \<Rightarrow> Inl TypeError
         | Some t \<Rightarrow>
             (case message_el of
                None \<Rightarrow> Inl TypeError
              | Some m \<Rightarrow>
                  (let d = (data this)\<lparr>title := Some (innerHTML (node t)),
                                         message := Some (innerHTML (node m))\<rparr>
                   in Inr (d, this\<lparr>data := d\<rparr>))))"

section \<open>The typed tool\<close>

record AlertCSS =
  acss_baseClass :: string
  acss_settingsButton :: string
  acss_settingsButtonActive :: string
  acss_wrapper :: string
  acss_wrapperForType :: "string option \<Rightarrow> string"
  acss_message :: string
  acss_settingsContainer :: string
  acss_title :: string
  acss_background :: string

text \<open>
  The instance fields. \<open>this.config\<close> is the object \<open>{ defaultType, typeColor }\<close> built
  by the constructor. \<open>this.container\<close> is the tree \<open>render\<close> built, \<open>None\<close> before the
  first \<open>render\<close>. \<open>this.background\<close> refers to a node of that tree: the model keeps the
  tree once, in \<open>container\<close>, and \<open>background\<close> is the position of the node among the
  container's children, so a write through one reference is seen through the other.
\<close>

record AlertTool =
  a_api :: API
  a_readOnly :: bool
  a_messagePlaceholder :: string
  a_defaultType :: "string option"
  a_config_defaultType :: "string option"
  a_config_typeColor :: "(string \<times> string) list"
  a_data :: AlertData
  container :: "element option"
  background :: "nat option"

definition wrapperForType :: "string option \<Rightarrow> string" where
  "wrapperForType t = ''cdx-warning-'' @ toString t"

definition Alert_CSS :: "AlertTool \<Rightarrow> AlertCSS" where
  "Alert_CSS this =
     \<lparr>acss_baseClass = styles_block (a_api this),
      acss_settingsButton = styles_settingsButton (a_api this),
      acss_settingsButtonActive = styles_settingsButtonActive (a_api this),
      acss_wrapper = ''cdx-warning'',
      acss_wrapperForType = wrapperForType,
      acss_message = ''cdx-warning__message'',
      acss_settingsContainer = ''settingsButton-wrapper'',
      acss_title = ''title'',
      acss_background = ''bg''\<rparr>"

text \<open>\<open>Object.keys(o)\<close> and \<open>o[k]\<close> on the association list of an object.\<close>

definition Object_keys :: "(string \<times> string) list \<Rightarrow> string list" where
  "Object_keys obj = map fst obj"

definition lookup :: "(string \<times> string) list \<Rightarrow> string \<Rightarrow> string option" where
  "lookup obj k = map_of obj k"

text \<open>\<open>keys.includes(v)\<close>: \<open>undefined\<close> is no element of a list of strings.\<close>

fun array_includes :: "string list \<Rightarrow> string option \<Rightarrow> bool" where
  "array_includes ks None = False"
| "array_includes ks (Some v) = (v \<in> set ks)"

text \<open>
  The constructor dereferences \<open>config\<close> and calls \<open>Object.keys\<close> on \<open>config.typeColor\<close>
  without a guard: each raises a \<open>TypeError\<close> on \<open>undefined\<close>.
\<close>

definition Alert_constructor ::
  "AlertData \<Rightarrow> AlertConfig option \<Rightarrow> API \<Rightarrow> bool \<Rightarrow> error + AlertTool" where
  "Alert_constructor d config a ro =
     (case config of
        None \<Rightarrow> Inl TypeError
      | Some c \<Rightarrow>
          (case acfg_typeColor c of
             None \<Rightarrow> Inl TypeError
           | Some tc \<Rightarrow>
               Inr \<lparr>a_api = a, a_readOnly = ro,
                    a_messagePlaceholder = js_or (acfg_messagePlaceholder c) DEFAULT_MESSAGE_PLACEHOLDER,
                    a_defaultType = acfg_defaultType c,
                    a_config_defaultType = acfg_defaultType c,
                    a_config_typeColor = tc,
                    a_data = \<lparr>alert_type = (if array_includes (Object_keys tc) (alert_type d)
                                              then alert_type d else acfg_defaultType c),
                              alert_message = Some (js_or (alert_message d) [])\<rparr>,
                    container = None, background = None\<rparr>))"

text \<open>Applying a write to the child at a position; no such child, no write.\<close>

fun update_child :: "nat \<Rightarrow> (element \<Rightarrow> element) \<Rightarrow> element \<Rightarrow> element" where
  "update_child i f (Element p ch) =
     (if i < length ch then Element p (ch[i := f (ch ! i)]) else Element p ch)"

fun child :: "nat \<Rightarrow> element \<Rightarrow> element option" where
  "child i (Element p ch) = (if i < length ch then Some (ch ! i) else None)"

text \<open>The node \<open>this.background\<close> refers to, and the class list of \<open>this.container\<close>.\<close>

definition Alert_background :: "AlertTool \<Rightarrow> element option" where
  "Alert_background this =
     (case background this of
        None \<Rightarrow> None
      | Some b \<Rightarrow> (case container this of None \<Rightarrow> None | Some c \<Rightarrow> child b c))"

definition container_classList :: "AlertTool \<Rightarrow> string list" where
  "container_classList this =
     (case container this of None \<Rightarrow> [] | Some c \<Rightarrow> classList (node c))"

text \<open>\<open>render\<close> returns the container and the tool with both references set.\<close>

definition Alert_render :: "browser \<Rightarrow> AlertTool \<Rightarrow> element \<times> AlertTool" where
  "Alert_render br this =
     (let containerClasses = [acss_wrapper (Alert_CSS this),
                              acss_wrapperForType (Alert_CSS this) (alert_type (a_data this))];
          messageEl = make_el br ''div'' (Names [acss_message (Alert_CSS this)])
                        [ContentEditable (\<not> a_readOnly this), InnerHTML (alert_message (a_data this))];
          bg = make_el br ''div'' (Names [acss_background (Alert_CSS this)]) [];
          messageEl = set_placeholder (a_messagePlaceholder this) messageEl;
          c = make_el br ''div'' (Names containerClasses) [];
          c = appendChild c bg;
          c = appendChild c messageEl;
          c = (if truthy (alert_type (a_data this))
               then update_child 0
                      (set_backgroundColor
                         (lookup (a_config_typeColor this) (toString (alert_type (a_data this))))) c
               else c)
      in (c, this\<lparr>container := Some c, background := Some 0\<rparr>))"

text \<open>
  \<open>_changeAlertType(newType)\<close>: the assignment to \<open>this.data.type\<close>, then the loop over
  the keys of \<open>typeColor\<close>. Reading \<open>classList\<close> of an undefined \<open>this.container\<close>, or
  \<open>style\<close> of an undefined \<open>this.background\<close>, raises a \<open>TypeError\<close>.
\<close>

fun changeAlertType_loop :: "string \<Rightarrow> string list \<Rightarrow> AlertTool \<Rightarrow> error + AlertTool" where
  "changeAlertType_loop newType [] this = Inr this"
| "changeAlertType_loop newType (type # rest) this =
     (let warningClass = acss_wrapperForType (Alert_CSS this) (Some type)
      in case container this of
           None \<Rightarrow> Inl TypeError
         | Some c \<Rightarrow>
             (let c = classList_remove warningClass c
              in if newType = type
                 then (let c = classList_add [warningClass] c;
                           colorCode = lookup (a_config_typeColor this) type
                       in case background this of
                            None \<Rightarrow> Inl TypeError
                          | Some b \<Rightarrow>
                              changeAlertType_loop newType rest
                                (this\<lparr>container := Some (update_child b (set_backgroundColor colorCode) c)\<rparr>))
                 else changeAlertType_loop newType rest (this\<lparr>container := Some c\<rparr>)))"

definition changeAlertType :: "string \<Rightarrow> AlertTool \<Rightarrow> error + AlertTool" where
  "changeAlertType newType this =
     (let this = this\<lparr>a_data := (a_data this)\<lparr>alert_type := Some newType\<rparr>\<rparr>
      in changeAlertType_loop newType (Object_keys (a_config_typeColor this)) this)"

text \<open>\<open>save\<close> builds a new object by spreading \<open>this.data\<close>; the tool is not written.\<close>

definition Alert_save :: "AlertTool \<Rightarrow> element \<Rightarrow> error + (AlertData \<times> AlertTool)" where
  "Alert_save this warningElement =
     (let messageEl = querySelector (acss_message (Alert_CSS this)) warningElement
      in case messageEl of
           None \<Rightarrow> Inl TypeError
         | Some m \<Rightarrow> Inr ((a_data this)\<lparr>alert_message := Some (innerHTML (node m))\<rparr>, this))"

definition Alert_sanitize :: "(string \<times> string list) list" where
  "Alert_sanitize = [(''type'', []), (''message'', [])]"

text \<open>
  \<open>renderSettings\<close>: the title, then one button per key of \<open>typeColor\<close>, made by
  the body of the \<open>forEach\<close>; the button of the current type gets the active class.
  The tool is not written.
\<close>

definition make_settingsButton :: "browser \<Rightarrow> AlertTool \<Rightarrow> string \<Rightarrow> element" where
  "make_settingsButton br this type =
     (let settingsButton = make_el br ''div''
            (Names [acss_settingsButton (Alert_CSS this), acss_wrapper (Alert_CSS this),
                    acss_wrapperForType (Alert_CSS this) (Some type)])
            [InnerHTML (Some ''A'')]
      in if alert_type (a_data this) = Some type
         then classList_add [acss_settingsButtonActive (Alert_CSS this)] settingsButton
         else settingsButton)"

fun renderSettings_loop :: "browser \<Rightarrow> AlertTool \<Rightarrow> string list \<Rightarrow> element \<Rightarrow> element" where
  "renderSettings_loop br this [] settingsContainer = settingsContainer"
| "renderSettings_loop br this (type # rest) settingsContainer =
     renderSettings_loop br this rest
       (appendChild settingsContainer (make_settingsButton br this type))"

definition renderSettings :: "browser \<Rightarrow> AlertTool \<Rightarrow> element" where
  "renderSettings br this =
     (let settingsContainer = make_el br ''div'' (Names [acss_settingsContainer (Alert_CSS this)]) [];
          title_el = make_el br ''div'' (Names [acss_title (Alert_CSS this)]) [];
          title_el = set_innerHTML br (i18n_t (a_api this) '' Type'' @ '' '') title_el;
          settingsContainer = appendChild settingsContainer title_el
      in renderSettings_loop br this (Object_keys (a_config_typeColor this)) settingsContainer)"

text \<open>
  \<open>querySelectorAll('.' + sb).forEach(button => button.classList.remove(act))\<close> on the
  descendants of an element.
\<close>

fun unhighlight :: "string \<Rightarrow> string \<Rightarrow> element \<Rightarrow> element" where
  "unhighlight sb act (Element p ch) =
     Element p (map (\<lambda>e. if hasClass sb e then classList_remove act (unhighlight sb act e)
                          else unhighlight sb act e) ch)"

text \<open>
  The click listener of the button made for the \<open>i\<close>-th key. That button is child
  \<open>i + 1\<close> of the settings container, after the title. There is a listener for each
  key and no other; an exception of \<open>_changeAlertType\<close> leaves the listener.
\<close>

definition settingsButton_click :: "nat \<Rightarrow> AlertTool \<Rightarrow> element \<Rightarrow> error + (AlertTool \<times> element)" where
  "settingsButton_click i this settingsContainer =
     (if i < length (Object_keys (a_config_typeColor this))
      then (case changeAlertType (Object_keys (a_config_typeColor this) ! i) this of
              Inl e \<Rightarrow> Inl e
            | Inr this' \<Rightarrow>
                (let sc = unhighlight (acss_settingsButton (Alert_CSS this'))
                            (acss_settingsButtonActive (Alert_CSS this')) settingsContainer;
                     sc = update_child (Suc i)
                            (classList_add [acss_settingsButtonActive (Alert_CSS this')]) sc
                 in Inr (this', sc)))
      else Inr (this, settingsContainer))"

section \<open>Static declarations\<close>

datatype tool_class = WarningTS | SuccessJS | WarningLegacyJS | AlertJS

text \<open>The fields of the data object each class builds in its constructor and in \<open>save\<close>.\<close>

fun data_fields :: "tool_class \<Rightarrow> string list" where
  "data_fields AlertJS = [''type'', ''message'']"
| "data_fields c = [''title'', ''message'']"

text \<open>
  The static getter \<open>sanitize\<close> of each class: for each field the tags the host may
  keep, \<open>{}\<close> being none. The legacy class has no such getter.
\<close>

fun sanitize :: "tool_class \<Rightarrow> (string \<times> string list) list option" where
  "sanitize WarningTS = Some Warning_sanitize"
| "sanitize SuccessJS = Some Success_sanitize"
| "sanitize AlertJS = Some Alert_sanitize"
| "sanitize WarningLegacyJS = None"

section \<open>Reachable states of the typed tool\<close>

text \<open>
  A typed tool is rendered once \<open>render\<close> has run: \<open>this.container\<close> is set and
  \<open>this.background\<close> refers to one of its children.
\<close>

definition rendered :: "AlertTool \<Rightarrow> bool" where
  "rendered this =
     (case container this of
        None \<Rightarrow> False
      | Some c \<Rightarrow> (case background this of None \<Rightarrow> False | Some b \<Rightarrow> b < length (childNodes c)))"

text \<open>
  What \<open>renderSettings\<close> establishes of a settings container and every click keeps:
  the title is followed by one control per key, and the controls carry the button
  class (when the host's active class is the button class itself, removing the one
  removes the other, and nothing is asked).
\<close>

definition settings_inv :: "AlertTool \<Rightarrow> element \<Rightarrow> bool" where
  "settings_inv this sc =
     (length (childNodes sc) = Suc (length (Object_keys (a_config_typeColor this))) \<and>
      (styles_settingsButtonActive (a_api this) = styles_settingsButton (a_api this) \<or>
       list_all (hasClass (styles_settingsButton (a_api this))) (tl (childNodes sc))))"

text \<open>
  Strings that pass through \<open>innerHTML\<close> unchanged whatever the browser: no \<open>&\<close>, \<open><\<close>,
  \<open>>\<close>, NUL, carriage return or no-break space.
\<close>

fun has_nbsp :: "string \<Rightarrow> bool" where
  "has_nbsp (a # b # cs) = ((a = CHR 0xC2 \<and> b = CHR 0xA0) \<or> has_nbsp (b # cs))"
| "has_nbsp cs = False"

definition plain_text :: "string \<Rightarrow> bool" where
  "plain_text s =
     (CHR ''&'' \<notin> set s \<and> CHR ''<'' \<notin> set s \<and> CHR ''>'' \<notin> set s \<and>
      CHR 0x00 \<notin> set s \<and> CHR 0x0D \<notin> set s \<and> \<not> has_nbsp s)"

section \<open>Examples\<close>

text \<open>
  A value for the browser parameter in the examples. Their strings are not left to
  the tokenizer, so it is never consulted.
\<close>

definition ex_browser :: browser where
  "ex_browser = \<lparr>parse_elements = (\<lambda>s. []), parse_serialize = (\<lambda>s. s)\<rparr>"

definition ex_tool :: Tool where
  "ex_tool = \<lparr>api = host_api, titlePlaceholder = ''Title'', messagePlaceholder = ''Message'',
              data = \<lparr>title = Some ''Note'', message = Some ''Text''\<rparr>\<rparr>"

definition ex_warning :: WarningTool where
  "ex_warning = \<lparr>api = host_api, titlePlaceholder = ''Title'', messagePlaceholder = ''Message'',
                 data = \<lparr>title = Some ''Note'', message = Some ''Text''\<rparr>, readOnly = True\<rparr>"

definition ex_alert :: AlertTool where
  "ex_alert = \<lparr>a_api = host_api, a_readOnly = True, a_messagePlaceholder = ''Message'',
               a_defaultType = Some ''info'', a_config_defaultType = Some ''info'',
               a_config_typeColor = [(''info'', ''#eee''), (''danger'', ''#f00'')],
               a_data = \<lparr>alert_type = Some ''info'', alert_message = Some ''old''\<rparr>,
               container = None, background = None\<rparr>"

text \<open>The TypeScript \<open>Warning\<close> constructed with the title \<open>Tom & Jerry\<close>.\<close>

definition ex_tom :: WarningTool where
  "ex_tom = \<lparr>api = host_api, titlePlaceholder = ''Title'', messagePlaceholder = ''Message'',
             data = \<lparr>title = Some ''Tom & Jerry'', message = Some ''Text''\<rparr>, readOnly = False\<rparr>"

text \<open>A typed tool whose default type is no key of \<open>typeColor\<close>, after its constructor.\<close>

definition ex_alert_default :: AlertTool where
  "ex_alert_default = \<lparr>a_api = host_api, a_readOnly = False, a_messagePlaceholder = ''Message'',
               a_defaultType = Some ''info'', a_config_defaultType = Some ''info'',
               a_config_typeColor = [(''warning'', ''#ff0'')],
               a_data = \<lparr>alert_type = Some ''info'', alert_message = Some []\<rparr>,
               container = None, background = None\<rparr>"

text \<open>A root element whose message region holds the text \<open>new\<close>.\<close>

definition ex_edited :: element where
  "ex_edited = appendChild (createElement ''div'')
                 (make_el ex_browser ''div'' (Names [''cdx-warning__message'']) [InnerHTML (Some ''new'')])"

section \<open>Basic facts\<close>

lemma js_or_empty: "js_or x [] = (case x of None \<Rightarrow> [] | Some s \<Rightarrow> s)"
  by (cases x) auto

lemma js_or_nonempty: "d \<noteq> [] \<Longrightarrow> js_or x d \<noteq> []"
  by (cases x) auto

lemma css_simps [simp]:
  "css_title (Warning_CSS w) = ''cdx-warning__title''"
  "css_message (Warning_CSS w) = ''cdx-warning__message''"
  "css_input (Warning_CSS w) = styles_input (api w)"
  "css_title (Success_CSS s) = ''cdx-success__title''"
  "css_message (Success_CSS s) = ''cdx-success__message''"
  "css_input (Success_CSS s) = styles_input (api s)"
  "css_title (Legacy_CSS s) = ''cdx-warning__title''"
  "css_message (Legacy_CSS s) = ''cdx-warning__message''"
  "css_input (Legacy_CSS s) = styles_input (api s)"
  "acss_message (Alert_CSS a) = ''cdx-warning__message''"
  by (simp_all add: Warning_CSS_def Success_CSS_def Legacy_CSS_def Alert_CSS_def)

lemma acss_simps [simp]:
  "acss_wrapperForType (Alert_CSS this) = wrapperForType"
  "acss_settingsButton (Alert_CSS this) = styles_settingsButton (a_api this)"
  "acss_settingsButtonActive (Alert_CSS this) = styles_settingsButtonActive (a_api this)"
  by (simp_all add: Alert_CSS_def)

lemma node_classList_remove [simp]:
  "node (classList_remove w c) = (node c)\<lparr>classList := tokens_remove w (classList (node c))\<rparr>"
  by (cases c) simp

lemma childNodes_classList_remove [simp]: "childNodes (classList_remove w c) = childNodes c"
  by (cases c) simp

lemma node_classList_add1 [simp]:
  "node (classList_add [w] c) = (node c)\<lparr>classList := tokens_add w (classList (node c))\<rparr>"
  by (cases c) simp

lemma childNodes_classList_add [simp]: "childNodes (classList_add ws c) = childNodes c"
  by (cases c) simp

lemma node_update_child [simp]: "node (update_child i f c) = node c"
  by (cases c) simp

lemma length_childNodes_update_child [simp]:
  "length (childNodes (update_child i f c)) = length (childNodes c)"
  by (cases c) simp

lemma child_update_child_same:
  "i < length (childNodes c) \<Longrightarrow> child i (update_child i f c) = Some (f (childNodes c ! i))"
  by (cases c) simp

lemma child_eq: "child i c = (if i < length (childNodes c) then Some (childNodes c ! i) else None)"
  by (cases c) simp

lemma node_set_backgroundColor [simp]:
  "node (set_backgroundColor v e) = (node e)\<lparr>style_backgroundColor := v\<rparr>"
  by (cases e) simp

lemma set_tokens_add [simp]: "set (tokens_add w cs) = insert w (set cs)"
  by (auto simp: tokens_add_def)

lemma set_tokens_remove [simp]: "set (tokens_remove w cs) = set cs - {w}"
  by (auto simp: tokens_remove_def)

lemma wrapperForType_inj [simp]: "(wrapperForType (Some s) = wrapperForType (Some t)) = (s = t)"
  by (simp add: wrapperForType_def)

lemma node_unhighlight [simp]: "node (unhighlight sb act e) = node e"
  by (cases e) simp

lemma childNodes_unhighlight:
  "childNodes (unhighlight sb act e) =
     map (\<lambda>e. if hasClass sb e then classList_remove act (unhighlight sb act e)
               else unhighlight sb act e) (childNodes e)"
  by (cases e) simp

lemma childNodes_appendChild [simp]: "childNodes (appendChild e c) = childNodes e @ [c]"
  by (cases e) simp

lemma node_appendChild [simp]: "node (appendChild e c) = node e"
  by (cases e) simp

lemma hasClass_classList_remove [simp]:
  "hasClass a (classList_remove w e) = (hasClass a e \<and> a \<noteq> w)"
  by (cases e) (auto simp: hasClass_def)

lemma hasClass_classList_add1 [simp]:
  "hasClass a (classList_add [w] e) = (hasClass a e \<or> a = w)"
  by (cases e) (auto simp: hasClass_def)

lemma hasClass_unhighlight [simp]: "hasClass a (unhighlight sb act e) = hasClass a e"
  by (simp add: hasClass_def)

lemma WarningData_eq:
  "title d = Some t \<Longrightarrow> message d = Some m \<Longrightarrow> (d::WarningData) = \<lparr>title = Some t, message = Some m\<rparr>"
  by (cases d) simp

lemma charref_start_needs_amp: "CHR ''&'' \<notin> set s \<Longrightarrow> \<not> charref_start s"
  by (induction s rule: charref_start.induct) auto

lemma plain_text_no_tokenizer: "plain_text s \<Longrightarrow> \<not> needs_tokenizer s"
  by (simp add: plain_text_def needs_tokenizer_def charref_start_needs_amp)

lemma escape_text_plain:
  "CHR ''&'' \<notin> set s \<Longrightarrow> CHR ''<'' \<notin> set s \<Longrightarrow> CHR ''>'' \<notin> set s \<Longrightarrow> \<not> has_nbsp s
     \<Longrightarrow> escape_text s = s"
  by (induction s rule: escape_text.induct) (auto simp: escape_char_def)

text \<open>A plain text passes through \<open>innerHTML\<close> unchanged and makes no element, in every browser.\<close>

lemma plain_text_passes_innerHTML:
  "plain_text s \<Longrightarrow> innerHTML_read br s = s \<and> innerHTML_children br s = []"
  using plain_text_no_tokenizer [of s]
  by (simp add: innerHTML_read_def innerHTML_children_def escape_text_plain plain_text_def)

text \<open>The equations that evaluate \<open>innerHTML\<close> on a given string.\<close>

lemmas innerHTML_eval =
  innerHTML_read_def innerHTML_children_def needs_tokenizer_def is_alnum_def escape_char_def

section \<open>What \<open>render\<close> builds\<close>

lemma Warning_render_shape:
  "Warning_render br w =
     Element \<lparr>tagName = ''div'', classList = tokens_add ''cdx-warning'' [styles_block (api w)],
              contentEditable = ''inherit'', innerHTML = [], dataset_placeholder = None,
              style_backgroundColor = None\<rparr>
       [Element \<lparr>tagName = ''div'', classList = tokens_add ''cdx-warning__title'' [styles_input (api w)],
                 contentEditable = (if readOnly w then ''false'' else ''true''),
                 innerHTML = innerHTML_read br (toString (title (data w))),
                 dataset_placeholder = Some (titlePlaceholder w), style_backgroundColor = None\<rparr>
          (innerHTML_children br (toString (title (data w)))),
        Element \<lparr>tagName = ''div'', classList = tokens_add ''cdx-warning__message'' [styles_input (api w)],
                 contentEditable = (if readOnly w then ''false'' else ''true''),
                 innerHTML = innerHTML_read br (toString (message (data w))),
                 dataset_placeholder = Some (messagePlaceholder w), style_backgroundColor = None\<rparr>
          (innerHTML_children br (toString (message (data w))))]"
  by (simp add: Warning_render_def Warning_CSS_def make_el_def createElement_def Let_def tokens_add_def)

lemma Success_render_shape:
  "Success_render br s =
     Element \<lparr>tagName = ''div'', classList = tokens_add ''cdx-success'' [styles_block (api s)],
              contentEditable = ''inherit'', innerHTML = [], dataset_placeholder = None,
              style_backgroundColor = None\<rparr>
       [Element \<lparr>tagName = ''div'', classList = tokens_add ''cdx-success__title'' [styles_input (api s)],
                 contentEditable = ''true'',
                 innerHTML = innerHTML_read br (toString (title (data s))),
                 dataset_placeholder = Some (titlePlaceholder s), style_backgroundColor = None\<rparr>
          (innerHTML_children br (toString (title (data s)))),
        Element \<lparr>tagName = ''div'', classList = tokens_add ''cdx-success__message'' [styles_input (api s)],
                 contentEditable = ''true'',
                 innerHTML = innerHTML_read br (toString (message (data s))),
                 dataset_placeholder = Some (messagePlaceholder s), style_backgroundColor = None\<rparr>
          (innerHTML_children br (toString (message (data s))))]"
  by (simp add: Success_render_def Success_CSS_def make_el_def createElement_def Let_def tokens_add_def)

lemma Legacy_render_shape:
  "Legacy_render br s =
     Element \<lparr>tagName = ''div'', classList = tokens_add ''cdx-warning'' [styles_block (api s)],
              contentEditable = ''inherit'', innerHTML = [], dataset_placeholder = None,
              style_backgroundColor = None\<rparr>
       [Element \<lparr>tagName = ''div'', classList = tokens_add ''cdx-warning__title'' [styles_input (api s)],
                 contentEditable = ''true'',
                 innerHTML = innerHTML_read br (toString (title (data s))),
                 dataset_placeholder = Some (titlePlaceholder s), style_backgroundColor = None\<rparr>
          (innerHTML_children br (toString (title (data s)))),
        Element \<lparr>tagName = ''div'', classList = tokens_add ''cdx-warning__message'' [styles_input (api s)],
                 contentEditable = ''true'',
                 innerHTML = innerHTML_read br (toString (message (data s))),
                 dataset_placeholder = Some (messagePlaceholder s), style_backgroundColor = None\<rparr>
          (innerHTML_children br (toString (message (data s))))]"
  by (simp add: Legacy_render_def Legacy_CSS_def make_el_def createElement_def Let_def tokens_add_def)

lemma Alert_render_shape:
  "fst (Alert_render br a) =
     Element \<lparr>tagName = ''div'',
              classList = tokens_add (wrapperForType (alert_type (a_data a))) [''cdx-warning''],
              contentEditable = ''inherit'', innerHTML = [], dataset_placeholder = None,
              style_backgroundColor = None\<rparr>
       [Element \<lparr>tagName = ''div'', classList = [''bg''],
                 contentEditable = ''inherit'', innerHTML = [], dataset_placeholder = None,
                 style_backgroundColor =
                   (if truthy (alert_type (a_data a))
                    then lookup (a_config_typeColor a) (toString (alert_type (a_data a))) else None)\<rparr> [],
        Element \<lparr>tagName = ''div'', classList = [''cdx-warning__message''],
                 contentEditable = (if a_readOnly a then ''false'' else ''true''),
                 innerHTML = innerHTML_read br (toString (alert_message (a_data a))),
                 dataset_placeholder = Some (a_messagePlaceholder a), style_backgroundColor = None\<rparr>
          (innerHTML_children br (toString (alert_message (a_data a))))]"
  by (simp add: Alert_render_def Alert_CSS_def make_el_def createElement_def Let_def tokens_add_def)

lemma Alert_render_tool:
  "snd (Alert_render br a) = a\<lparr>container := Some (fst (Alert_render br a)), background := Some 0\<rparr>"
  by (simp add: Alert_render_def Let_def)

lemma rendered_Alert_render: "rendered (snd (Alert_render br a))"
  by (simp add: Alert_render_tool rendered_def Alert_render_shape)

section \<open>The type switch\<close>

text \<open>
  One pass of the loop of \<open>_changeAlertType\<close> over keys \<open>ks\<close>, on a rendered tool:
  it returns, keeps the tool rendered, removes the class of every key in \<open>ks\<close> from
  the container, adds the class of \<open>B\<close> when \<open>B\<close> is among them, and then sets the
  colour of the background.
\<close>

lemma changeAlertType_loop_effect:
  assumes "rendered this"
  shows "\<exists>this'. changeAlertType_loop B ks this = Inr this' \<and> rendered this' \<and>
           a_data this' = a_data this \<and> a_api this' = a_api this \<and>
           a_config_typeColor this' = a_config_typeColor this \<and>
           set (container_classList this') =
             (set (container_classList this) - (\<lambda>k. wrapperForType (Some k)) ` set ks)
               \<union> (if B \<in> set ks then {wrapperForType (Some B)} else {}) \<and>
           map_option (\<lambda>e. style_backgroundColor (node e)) (Alert_background this') =
             (if B \<in> set ks then Some (lookup (a_config_typeColor this) B)
              else map_option (\<lambda>e. style_backgroundColor (node e)) (Alert_background this))"
  using assms
proof (induction ks arbitrary: this)
  case Nil
  then show ?case by simp
next
  case (Cons k ks)
  from Cons.prems obtain c b where cb: "container this = Some c" "background this = Some b" "b < length (childNodes c)"
    by (auto simp: rendered_def split: option.splits)
  show ?case
  proof (cases "B = k")
    case True
    let ?t = "this\<lparr>container := Some (update_child b (set_backgroundColor (lookup (a_config_typeColor this) k))
                 (classList_add [wrapperForType (Some k)] (classList_remove (wrapperForType (Some k)) c)))\<rparr>"
    have r: "rendered ?t" using cb by (simp add: rendered_def)
    have step: "changeAlertType_loop B (k # ks) this = changeAlertType_loop B ks ?t"
      using cb True by (simp add: Let_def)
    from Cons.IH[OF r] obtain this' where
      IH: "changeAlertType_loop B ks ?t = Inr this'" "rendered this'" "a_data this' = a_data ?t"
        "a_api this' = a_api ?t" "a_config_typeColor this' = a_config_typeColor ?t"
        "set (container_classList this') =
             (set (container_classList ?t) - (\<lambda>k. wrapperForType (Some k)) ` set ks)
               \<union> (if B \<in> set ks then {wrapperForType (Some B)} else {})"
        "map_option (\<lambda>e. style_backgroundColor (node e)) (Alert_background this') =
             (if B \<in> set ks then Some (lookup (a_config_typeColor ?t) B)
              else map_option (\<lambda>e. style_backgroundColor (node e)) (Alert_background ?t))"
      by blast
    have cl: "set (container_classList ?t) = insert (wrapperForType (Some k)) (set (container_classList this))"
      using cb by (auto simp: container_classList_def)
    have bg: "map_option (\<lambda>e. style_backgroundColor (node e)) (Alert_background ?t) = Some (lookup (a_config_typeColor this) k)"
      using cb by (simp add: Alert_background_def child_update_child_same)
    show ?thesis
      unfolding step using IH cl bg True by auto
  next
    case False
    let ?t = "this\<lparr>container := Some (classList_remove (wrapperForType (Some k)) c)\<rparr>"
    have r: "rendered ?t" using cb by (simp add: rendered_def)
    have step: "changeAlertType_loop B (k # ks) this = changeAlertType_loop B ks ?t"
      using cb False by (simp add: Let_def)
    from Cons.IH[OF r] obtain this' where
      IH: "changeAlertType_loop B ks ?t = Inr this'" "rendered this'" "a_data this' = a_data ?t"
        "a_api this' = a_api ?t" "a_config_typeColor this' = a_config_typeColor ?t"
        "set (container_classList this') =
             (set (container_classList ?t) - (\<lambda>k. wrapperForType (Some k)) ` set ks)
               \<union> (if B \<in> set ks then {wrapperForType (Some B)} else {})"
        "map_option (\<lambda>e. style_backgroundColor (node e)) (Alert_background this') =
             (if B \<in> set ks then Some (lookup (a_config_typeColor ?t) B)
              else map_option (\<lambda>e. style_backgroundColor (node e)) (Alert_background ?t))"
      by blast
    have cl: "set (container_classList ?t) = set (container_classList this) - {wrapperForType (Some k)}"
      using cb by (auto simp: container_classList_def)
    have bg: "Alert_background ?t = Alert_background this"
      using cb by (simp add: Alert_background_def child_eq)
    show ?thesis
      unfolding step using IH cl bg False by auto
  qed
qed


lemma changeAlertType_effect:
  assumes "rendered this"
  shows "\<exists>this'. changeAlertType B this = Inr this' \<and> rendered this' \<and>
           a_data this' = (a_data this)\<lparr>alert_type := Some B\<rparr> \<and> a_api this' = a_api this \<and>
           a_config_typeColor this' = a_config_typeColor this \<and>
           set (container_classList this') =
             (set (container_classList this)
                - (\<lambda>k. wrapperForType (Some k)) ` set (Object_keys (a_config_typeColor this)))
               \<union> (if B \<in> set (Object_keys (a_config_typeColor this)) then {wrapperForType (Some B)} else {}) \<and>
           map_option (\<lambda>e. style_backgroundColor (node e)) (Alert_background this') =
             (if B \<in> set (Object_keys (a_config_typeColor this)) then Some (lookup (a_config_typeColor this) B)
              else map_option (\<lambda>e. style_backgroundColor (node e)) (Alert_background this))"
proof -
  let ?t = "this\<lparr>a_data := (a_data this)\<lparr>alert_type := Some B\<rparr>\<rparr>"
  have r: "rendered ?t" using assms by (auto simp: rendered_def split: option.splits)
  have bg: "Alert_background ?t = Alert_background this"
    by (simp add: Alert_background_def split: option.splits)
  have cl: "container_classList ?t = container_classList this" by (simp add: container_classList_def)
  show ?thesis
    using changeAlertType_loop_effect[OF r, of B "Object_keys (a_config_typeColor this)"]
    by (auto simp: changeAlertType_def Let_def bg cl)
qed

lemma renderSettings_loop_children:
  "childNodes (renderSettings_loop br this ks sc) = childNodes sc @ map (make_settingsButton br this) ks"
  by (induction ks arbitrary: sc) simp_all

lemma hasClass_make_settingsButton:
  "hasClass (styles_settingsButton (a_api this)) (make_settingsButton br this k)"
  by (simp add: make_settingsButton_def make_el_def createElement_def hasClass_def Let_def tokens_add_def)

lemma renderSettings_inv: "settings_inv this (renderSettings br this)"
  by (simp add: settings_inv_def renderSettings_def renderSettings_loop_children Let_def
      make_el_def createElement_def list_all_iff hasClass_make_settingsButton)


section \<open>Claims about the constructors\<close>

text \<open>
  C5: when the data given to a title and message constructor lacks the title or the
  message, the tool's data has both fields and each lacking field is the empty
  string. The TypeScript constructor returns for every input; the JavaScript ones
  read the configuration object and return whenever it is given.
\<close>

theorem constructor_fills_missing_fields:
  assumes "title d = None \<or> message d = None"
  shows "(\<exists>w. Warning_constructor d config h ro = Inr w \<and>
            title (data w) \<noteq> None \<and> message (data w) \<noteq> None \<and>
            (title d = None \<longrightarrow> title (data w) = Some []) \<and>
            (message d = None \<longrightarrow> message (data w) = Some [])) \<and>
         (\<exists>s. Success_constructor d (Some c) h ro = Inr s \<and>
            title (data s) \<noteq> None \<and> message (data s) \<noteq> None \<and>
            (title d = None \<longrightarrow> title (data s) = Some []) \<and>
            (message d = None \<longrightarrow> message (data s) = Some [])) \<and>
         (\<exists>l. Legacy_constructor d (Some c) h ro = Inr l \<and>
            title (data l) \<noteq> None \<and> message (data l) \<noteq> None \<and>
            (title d = None \<longrightarrow> title (data l) = Some []) \<and>
            (message d = None \<longrightarrow> message (data l) = Some []))"
  by (auto simp: Warning_constructor_def Success_constructor_def Legacy_constructor_def
      js_or_empty split: option.splits)

theorem constructor_fills_missing_fields_witness:
  "(title \<lparr>title = None, message = None\<rparr> = None \<or> message \<lparr>title = None, message = None\<rparr> = None) \<and>
   (\<exists>w. Warning_constructor \<lparr>title = None, message = None\<rparr> None host_api False = Inr w \<and>
        data w = \<lparr>title = Some [], message = Some []\<rparr>) \<and>
   (\<exists>s. Success_constructor \<lparr>title = None, message = None\<rparr>
          (Some \<lparr>cfg_titlePlaceholder = None, cfg_messagePlaceholder = None\<rparr>) host_api False = Inr s \<and>
        data s = \<lparr>title = Some [], message = Some []\<rparr>) \<and>
   (\<exists>l. Legacy_constructor \<lparr>title = None, message = None\<rparr>
          (Some \<lparr>cfg_titlePlaceholder = None, cfg_messagePlaceholder = None\<rparr>) host_api False = Inr l \<and>
        data l = \<lparr>title = Some [], message = Some []\<rparr>)"
proof -
  have h: "title \<lparr>title = None, message = None\<rparr> = None \<or> message \<lparr>title = None, message = None\<rparr> = None"
    by simp
  show ?thesis
    using constructor_fills_missing_fields [OF h, where config = None and h = host_api
        and ro = False
        and c = "\<lparr>cfg_titlePlaceholder = None, cfg_messagePlaceholder = None\<rparr>"]
    by (simp add: Warning_constructor_def Success_constructor_def Legacy_constructor_def)
qed

text \<open>
  C10: a configured placeholder that is the empty string is replaced by the built-in
  one, \<open>Title\<close> or \<open>Message\<close>, in every title and message constructor and, for the
  message placeholder, in the typed one; no constructor yields an empty placeholder.
\<close>

theorem empty_placeholder_replaced:
  assumes "cfg_titlePlaceholder c = Some [] \<or> cfg_messagePlaceholder c = Some []"
  shows "(\<exists>w. Warning_constructor d (Some c) h ro = Inr w \<and>
            titlePlaceholder w \<noteq> [] \<and> messagePlaceholder w \<noteq> [] \<and>
            (cfg_titlePlaceholder c = Some [] \<longrightarrow> titlePlaceholder w = ''Title'') \<and>
            (cfg_messagePlaceholder c = Some [] \<longrightarrow> messagePlaceholder w = ''Message'')) \<and>
         (\<exists>s. Success_constructor d (Some c) h ro = Inr s \<and>
            titlePlaceholder s \<noteq> [] \<and> messagePlaceholder s \<noteq> [] \<and>
            (cfg_titlePlaceholder c = Some [] \<longrightarrow> titlePlaceholder s = ''Title'') \<and>
            (cfg_messagePlaceholder c = Some [] \<longrightarrow> messagePlaceholder s = ''Message'')) \<and>
         (\<exists>l. Legacy_constructor d (Some c) h ro = Inr l \<and>
            titlePlaceholder l \<noteq> [] \<and> messagePlaceholder l \<noteq> [] \<and>
            (cfg_titlePlaceholder c = Some [] \<longrightarrow> titlePlaceholder l = ''Title'') \<and>
            (cfg_messagePlaceholder c = Some [] \<longrightarrow> messagePlaceholder l = ''Message'')) \<and>
         (acfg_typeColor ac \<noteq> None \<longrightarrow>
            (\<exists>a. Alert_constructor ad (Some ac) h ro = Inr a \<and>
               a_messagePlaceholder a \<noteq> [] \<and>
               (acfg_messagePlaceholder ac = Some [] \<longrightarrow> a_messagePlaceholder a = ''Message'')))"
  using assms
  by (auto simp: Warning_constructor_def Success_constructor_def Legacy_constructor_def
      Alert_constructor_def DEFAULT_TITLE_PLACEHOLDER_def DEFAULT_MESSAGE_PLACEHOLDER_def
      js_or_nonempty split: option.splits)

theorem empty_placeholder_replaced_witness:
  "(cfg_titlePlaceholder \<lparr>cfg_titlePlaceholder = Some [], cfg_messagePlaceholder = Some []\<rparr> = Some [] \<or>
    cfg_messagePlaceholder \<lparr>cfg_titlePlaceholder = Some [], cfg_messagePlaceholder = Some []\<rparr> = Some []) \<and>
   (\<exists>w. Warning_constructor (data ex_tool)
          (Some \<lparr>cfg_titlePlaceholder = Some [], cfg_messagePlaceholder = Some []\<rparr>) host_api False = Inr w \<and>
        titlePlaceholder w = ''Title'' \<and> messagePlaceholder w = ''Message'') \<and>
   (\<exists>s. Success_constructor (data ex_tool)
          (Some \<lparr>cfg_titlePlaceholder = Some [], cfg_messagePlaceholder = Some []\<rparr>) host_api False = Inr s \<and>
        titlePlaceholder s = ''Title'' \<and> messagePlaceholder s = ''Message'') \<and>
   (\<exists>l. Legacy_constructor (data ex_tool)
          (Some \<lparr>cfg_titlePlaceholder = Some [], cfg_messagePlaceholder = Some []\<rparr>) host_api False = Inr l \<and>
        titlePlaceholder l = ''Title'' \<and> messagePlaceholder l = ''Message'') \<and>
   acfg_typeColor \<lparr>acfg_messagePlaceholder = Some [], acfg_defaultType = Some ''info'',
                 acfg_typeColor = Some [(''info'', ''#eee'')]\<rparr> \<noteq> None \<and>
   acfg_messagePlaceholder \<lparr>acfg_messagePlaceholder = Some [], acfg_defaultType = Some ''info'',
                 acfg_typeColor = Some [(''info'', ''#eee'')]\<rparr> = Some [] \<and>
   (\<exists>a. Alert_constructor (a_data ex_alert)
          (Some \<lparr>acfg_messagePlaceholder = Some [], acfg_defaultType = Some ''info'',
                 acfg_typeColor = Some [(''info'', ''#eee'')]\<rparr>) host_api False = Inr a \<and>
        a_messagePlaceholder a = ''Message'')"
proof -
  have h: "cfg_titlePlaceholder \<lparr>cfg_titlePlaceholder = Some [], cfg_messagePlaceholder = Some []\<rparr> = Some [] \<or>
    cfg_messagePlaceholder \<lparr>cfg_titlePlaceholder = Some [], cfg_messagePlaceholder = Some []\<rparr> = Some []"
    by simp
  show ?thesis
    using empty_placeholder_replaced [OF h, where d = "data ex_tool" and h = host_api
        and ro = False and ad = "a_data ex_alert"
        and ac = "\<lparr>acfg_messagePlaceholder = Some [], acfg_defaultType = Some ''info'',
                 acfg_typeColor = Some [(''info'', ''#eee'')]\<rparr>"]
    by (simp add: Warning_constructor_def Success_constructor_def Legacy_constructor_def
      Alert_constructor_def DEFAULT_TITLE_PLACEHOLDER_def DEFAULT_MESSAGE_PLACEHOLDER_def)
qed

text \<open>
  C4: when the type given to the typed constructor is no key of the configured
  \<open>typeColor\<close>, the tool's type is the configured default type. With data
  \<open>{ type: "danger", message: "x" }\<close>, \<open>typeColor = { info: "#eee" }\<close> and default type
  \<open>info\<close> the type is \<open>info\<close>.
\<close>

theorem unrecognized_type_falls_back:
  assumes "acfg_typeColor c = Some tc"
    and "\<not> array_includes (Object_keys tc) (alert_type d)"
  shows "\<exists>a. Alert_constructor d (Some c) h ro = Inr a \<and>
           alert_type (a_data a) = acfg_defaultType c"
  using assms by (simp add: Alert_constructor_def)

theorem unrecognized_type_falls_back_witness:
  "acfg_typeColor \<lparr>acfg_messagePlaceholder = None, acfg_defaultType = Some ''info'',
          acfg_typeColor = Some [(''info'', ''#eee'')]\<rparr> = Some [(''info'', ''#eee'')] \<and>
   \<not> array_includes (Object_keys [(''info'', ''#eee'')])
        (alert_type \<lparr>alert_type = Some ''danger'', alert_message = Some ''x''\<rparr>) \<and>
   (\<exists>a. Alert_constructor \<lparr>alert_type = Some ''danger'', alert_message = Some ''x''\<rparr>
          (Some \<lparr>acfg_messagePlaceholder = None, acfg_defaultType = Some ''info'',
                 acfg_typeColor = Some [(''info'', ''#eee'')]\<rparr>) host_api False = Inr a \<and>
        alert_type (a_data a) = Some ''info'')"
proof -
  let ?c = "\<lparr>acfg_messagePlaceholder = None, acfg_defaultType = Some ''info'',
          acfg_typeColor = Some [(''info'', ''#eee'')]\<rparr>"
  let ?d = "\<lparr>alert_type = Some ''danger'', alert_message = Some ''x''\<rparr>"
  have h1: "acfg_typeColor ?c = Some [(''info'', ''#eee'')]" by simp
  have h2: "\<not> array_includes (Object_keys [(''info'', ''#eee'')]) (alert_type ?d)"
    by (simp add: Object_keys_def)
  show ?thesis
    using unrecognized_type_falls_back [OF h1 h2, where h = host_api and ro = False] h2
    by simp
qed

text \<open>
  C7 (as stated: construction never throws, for every input, also one lacking
  configuration entries such as the \<open>typeColor\<close> mapping). The statement fails: the
  typed constructor raises a \<open>TypeError\<close> when the configuration has no \<open>typeColor\<close>.
\<close>

theorem Alert_constructor_without_typeColor_throws:
  "Alert_constructor \<lparr>alert_type = Some ''danger'', alert_message = Some ''x''\<rparr>
     (Some \<lparr>acfg_messagePlaceholder = None, acfg_defaultType = Some ''info'',
            acfg_typeColor = None\<rparr>) host_api False = Inl TypeError"
  by (simp add: Alert_constructor_def)

text \<open>
  C7 (amended): the TypeScript \<open>Warning\<close> constructor returns for every input, with or
  without a configuration object; the constructors of \<open>Success\<close> and of the legacy
  \<open>Warning\<close> return whenever a configuration object is given; the typed constructor
  returns whenever the configuration object is given and has a \<open>typeColor\<close> mapping.
  Each string field of the data is then the string given, or the empty string when
  none was given, and the type of the typed tool is the type given when it is a key
  of \<open>typeColor\<close> and the default type otherwise.
\<close>

theorem construction_returns_with_fallbacks:
  "(\<exists>w. Warning_constructor d config h ro = Inr w \<and>
      title (data w) = Some (case title d of None \<Rightarrow> [] | Some x \<Rightarrow> x) \<and>
      message (data w) = Some (case message d of None \<Rightarrow> [] | Some x \<Rightarrow> x)) \<and>
   (\<exists>s. Success_constructor d (Some c) h ro = Inr s \<and>
      title (data s) = Some (case title d of None \<Rightarrow> [] | Some x \<Rightarrow> x) \<and>
      message (data s) = Some (case message d of None \<Rightarrow> [] | Some x \<Rightarrow> x)) \<and>
   (\<exists>l. Legacy_constructor d (Some c) h ro = Inr l \<and>
      title (data l) = Some (case title d of None \<Rightarrow> [] | Some x \<Rightarrow> x) \<and>
      message (data l) = Some (case message d of None \<Rightarrow> [] | Some x \<Rightarrow> x)) \<and>
   (acfg_typeColor ac = Some tc \<longrightarrow>
      (\<exists>a. Alert_constructor ad (Some ac) h ro = Inr a \<and>
         alert_message (a_data a) = Some (case alert_message ad of None \<Rightarrow> [] | Some x \<Rightarrow> x) \<and>
         alert_type (a_data a) =
           (if array_includes (Object_keys tc) (alert_type ad) then alert_type ad
            else acfg_defaultType ac)))"
  by (simp add: Warning_constructor_def Success_constructor_def Legacy_constructor_def
      Alert_constructor_def js_or_empty)

theorem construction_returns_with_fallbacks_witness:
  "(\<exists>w. Warning_constructor \<lparr>title = None, message = Some ''m''\<rparr> None host_api False = Inr w \<and>
      data w = \<lparr>title = Some [], message = Some ''m''\<rparr>) \<and>
   (\<exists>s. Success_constructor \<lparr>title = None, message = Some ''m''\<rparr>
          (Some \<lparr>cfg_titlePlaceholder = None, cfg_messagePlaceholder = None\<rparr>) host_api False = Inr s \<and>
      data s = \<lparr>title = Some [], message = Some ''m''\<rparr>) \<and>
   (\<exists>l. Legacy_constructor \<lparr>title = None, message = Some ''m''\<rparr>
          (Some \<lparr>cfg_titlePlaceholder = None, cfg_messagePlaceholder = None\<rparr>) host_api False = Inr l \<and>
      data l = \<lparr>title = Some [], message = Some ''m''\<rparr>) \<and>
   acfg_typeColor \<lparr>acfg_messagePlaceholder = None, acfg_defaultType = Some ''info'',
          acfg_typeColor = Some [(''info'', ''#eee'')]\<rparr> = Some [(''info'', ''#eee'')] \<and>
   (\<exists>a. Alert_constructor \<lparr>alert_type = Some ''danger'', alert_message = None\<rparr>
          (Some \<lparr>acfg_messagePlaceholder = None, acfg_defaultType = Some ''info'',
                 acfg_typeColor = Some [(''info'', ''#eee'')]\<rparr>) host_api False = Inr a \<and>
      a_data a = \<lparr>alert_type = Some ''info'', alert_message = Some []\<rparr>)"
  using construction_returns_with_fallbacks [where d = "\<lparr>title = None, message = Some ''m''\<rparr>"
      and config = None and h = host_api and ro = False
      and c = "\<lparr>cfg_titlePlaceholder = None, cfg_messagePlaceholder = None\<rparr>"
      and ac = "\<lparr>acfg_messagePlaceholder = None, acfg_defaultType = Some ''info'',
          acfg_typeColor = Some [(''info'', ''#eee'')]\<rparr>"
      and tc = "[(''info'', ''#eee'')]"
      and ad = "\<lparr>alert_type = Some ''danger'', alert_message = None\<rparr>"]
  by (simp add: Warning_constructor_def Success_constructor_def Legacy_constructor_def
      Alert_constructor_def Object_keys_def)

section \<open>Claims about \<open>render\<close>\<close>

text \<open>
  C2 (as stated: with the read-only flag set, both regions of every title and message
  tool are non-editable, and the flag has no effect on the message region of the typed
  tool, which is editable regardless). Both halves fail: the typed tool renders its
  message region with \<open>contentEditable: !this.readOnly\<close>, so with the flag set the
  region is not editable; and \<open>Success\<close> does not read the flag, so its title region
  is editable with the flag set.
\<close>

theorem readOnly_typed_and_Success:
  "map_option isEditable (querySelector ''cdx-warning__message'' (fst (Alert_render ex_browser ex_alert)))
     = Some False \<and>
   a_readOnly ex_alert = True \<and>
   Success_constructor (data ex_tool)
     (Some \<lparr>cfg_titlePlaceholder = None, cfg_messagePlaceholder = None\<rparr>) host_api True = Inr ex_tool \<and>
   map_option isEditable (querySelector ''cdx-success__title'' (Success_render ex_browser ex_tool)) = Some True"
  by (simp add: Alert_render_shape Success_render_shape Success_constructor_def ex_alert_def
      ex_tool_def host_api_def hasClass_def isEditable_def tokens_add_def
      DEFAULT_TITLE_PLACEHOLDER_def DEFAULT_MESSAGE_PLACEHOLDER_def)

text \<open>
  C2 (amended): the TypeScript \<open>Warning\<close> and the typed tool keep the read-only flag
  of the constructor, and the regions they render (title and message; message) are
  editable exactly when the flag is not set. \<open>Success\<close> and the legacy \<open>Warning\<close> do
  not read the flag: the tool built is the same with and without it, and both
  regions are editable.
\<close>

theorem readOnly_and_editability:
  "(\<exists>w. Warning_constructor d config h ro = Inr w \<and>
      (\<exists>p t m. Warning_render br w = Element p [t, m] \<and>
         hasClass ''cdx-warning__title'' t \<and> hasClass ''cdx-warning__message'' m \<and>
         isEditable t = (\<not> ro) \<and> isEditable m = (\<not> ro))) \<and>
   (acfg_typeColor ac \<noteq> None \<longrightarrow>
      (\<exists>a. Alert_constructor ad (Some ac) h ro = Inr a \<and>
         (\<exists>p b m. fst (Alert_render br a) = Element p [b, m] \<and>
            hasClass ''cdx-warning__message'' m \<and> isEditable m = (\<not> ro)))) \<and>
   (\<exists>s. Success_constructor d (Some c) h ro = Inr s \<and>
      Success_constructor d (Some c) h (\<not> ro) = Inr s \<and>
      (\<exists>p t m. Success_render br s = Element p [t, m] \<and>
         hasClass ''cdx-success__title'' t \<and> hasClass ''cdx-success__message'' m \<and>
         isEditable t \<and> isEditable m)) \<and>
   (\<exists>l. Legacy_constructor d (Some c) h ro = Inr l \<and>
      Legacy_constructor d (Some c) h (\<not> ro) = Inr l \<and>
      (\<exists>p t m. Legacy_render br l = Element p [t, m] \<and>
         hasClass ''cdx-warning__title'' t \<and> hasClass ''cdx-warning__message'' m \<and>
         isEditable t \<and> isEditable m))"
proof (intro conjI impI)
  show "\<exists>w. Warning_constructor d config h ro = Inr w \<and>
      (\<exists>p t m. Warning_render br w = Element p [t, m] \<and>
         hasClass ''cdx-warning__title'' t \<and> hasClass ''cdx-warning__message'' m \<and>
         isEditable t = (\<not> ro) \<and> isEditable m = (\<not> ro))"
    by (simp add: Warning_constructor_def Warning_render_shape hasClass_def isEditable_def)
next
  assume "acfg_typeColor ac \<noteq> None"
  then show "\<exists>a. Alert_constructor ad (Some ac) h ro = Inr a \<and>
         (\<exists>p b m. fst (Alert_render br a) = Element p [b, m] \<and>
            hasClass ''cdx-warning__message'' m \<and> isEditable m = (\<not> ro))"
    by (auto simp: Alert_constructor_def Alert_render_shape hasClass_def isEditable_def)
next
  show "\<exists>s. Success_constructor d (Some c) h ro = Inr s \<and>
      Success_constructor d (Some c) h (\<not> ro) = Inr s \<and>
      (\<exists>p t m. Success_render br s = Element p [t, m] \<and>
         hasClass ''cdx-success__title'' t \<and> hasClass ''cdx-success__message'' m \<and>
         isEditable t \<and> isEditable m)"
    by (simp add: Success_constructor_def Success_render_shape hasClass_def isEditable_def)
next
  show "\<exists>l. Legacy_constructor d (Some c) h ro = Inr l \<and>
      Legacy_constructor d (Some c) h (\<not> ro) = Inr l \<and>
      (\<exists>p t m. Legacy_render br l = Element p [t, m] \<and>
         hasClass ''cdx-warning__title'' t \<and> hasClass ''cdx-warning__message'' m \<and>
         isEditable t \<and> isEditable m)"
    by (simp add: Legacy_constructor_def Legacy_render_shape hasClass_def isEditable_def)
qed

theorem readOnly_and_editability_witness:
  "Warning_constructor (data ex_tool) None host_api True = Inr ex_warning \<and>
   map (isEditable) (childNodes (Warning_render ex_browser ex_warning)) = [False, False] \<and>
   acfg_typeColor \<lparr>acfg_messagePlaceholder = None, acfg_defaultType = Some ''info'',
        acfg_typeColor = Some [(''info'', ''#eee''), (''danger'', ''#f00'')]\<rparr> \<noteq> None \<and>
   Alert_constructor (a_data ex_alert)
     (Some \<lparr>acfg_messagePlaceholder = None, acfg_defaultType = Some ''info'',
        acfg_typeColor = Some [(''info'', ''#eee''), (''danger'', ''#f00'')]\<rparr>) host_api True = Inr ex_alert \<and>
   map (isEditable) (childNodes (fst (Alert_render ex_browser ex_alert))) = [False, False] \<and>
   Success_constructor (data ex_tool)
     (Some \<lparr>cfg_titlePlaceholder = None, cfg_messagePlaceholder = None\<rparr>) host_api True = Inr ex_tool \<and>
   map (isEditable) (childNodes (Success_render ex_browser ex_tool)) = [True, True] \<and>
   Legacy_constructor (data ex_tool)
     (Some \<lparr>cfg_titlePlaceholder = None, cfg_messagePlaceholder = None\<rparr>) host_api True = Inr ex_tool \<and>
   map (isEditable) (childNodes (Legacy_render ex_browser ex_tool)) = [True, True]"
  using readOnly_and_editability [where d = "data ex_tool" and config = None and h = host_api
      and ro = True
      and ac = "\<lparr>acfg_messagePlaceholder = None, acfg_defaultType = Some ''info'',
        acfg_typeColor = Some [(''info'', ''#eee''), (''danger'', ''#f00'')]\<rparr>"
      and ad = "a_data ex_alert"
      and c = "\<lparr>cfg_titlePlaceholder = None, cfg_messagePlaceholder = None\<rparr>"]
  by (simp add: Warning_constructor_def Alert_constructor_def Success_constructor_def
      Legacy_constructor_def Warning_render_shape Alert_render_shape Success_render_shape
      Legacy_render_shape ex_tool_def ex_warning_def ex_alert_def isEditable_def Object_keys_def
      DEFAULT_TITLE_PLACEHOLDER_def DEFAULT_MESSAGE_PLACEHOLDER_def)

text \<open>
  C3 (as stated: for every data with non-empty title and message strings, saving the
  element \<open>render\<close> returns gives the data back). The statement fails for the title
  \<open>Tom & Jerry\<close>: \<open>render\<close> assigns it to \<open>innerHTML\<close>, the browser makes a text node of
  it, and \<open>save\<close> reads the serialised markup \<open>Tom &amp; Jerry\<close>.
\<close>

theorem roundtrip_escapes_ampersand:
  "Warning_constructor \<lparr>title = Some ''Tom & Jerry'', message = Some ''Text''\<rparr> None host_api False
     = Inr ex_tom \<and>
   fst (projr (Warning_save ex_tom (Warning_render ex_browser ex_tom)))
     = \<lparr>title = Some ''Tom &amp; Jerry'', message = Some ''Text''\<rparr>"
  by (simp add: Warning_constructor_def Warning_save_def Warning_render_shape ex_tom_def
      host_api_def DEFAULT_TITLE_PLACEHOLDER_def DEFAULT_MESSAGE_PLACEHOLDER_def
      innerHTML_read_def innerHTML_children_def needs_tokenizer_def is_alnum_def
      escape_char_def hasClass_def tokens_add_def Let_def)

text \<open>The browser has no part in it: the string is not left to the tokenizer.\<close>

lemma roundtrip_escapes_ampersand_any_browser:
  "fst (projr (Warning_save ex_tom (Warning_render br ex_tom)))
     = \<lparr>title = Some ''Tom &amp; Jerry'', message = Some ''Text''\<rparr>"
  by (simp add: Warning_save_def Warning_render_shape ex_tom_def
      host_api_def innerHTML_read_def innerHTML_children_def needs_tokenizer_def is_alnum_def
      escape_char_def hasClass_def tokens_add_def Let_def)

text \<open>
  C3 (amended): for data whose title and message are strings that \<open>innerHTML\<close> returns
  as they were assigned (markup in the browser's serialised form; every plain text
  is one), and whose title markup holds no element carrying the class of the message
  region, constructing a title and message tool and saving the element it renders,
  with no edit in between, returns that data and leaves the tool as it is. The
  host's input class must not be the class of the message region, by which \<open>save\<close>
  finds it; the JavaScript constructors need their configuration object.
\<close>

theorem save_render_roundtrip:
  assumes "title d = Some t" and "message d = Some m"
    and "innerHTML_read br t = t" and "innerHTML_read br m = m"
  shows "(styles_input h \<noteq> ''cdx-warning__message'' \<and>
          querySelector_list ''cdx-warning__message'' (innerHTML_children br t) = None \<longrightarrow>
           (\<exists>w. Warning_constructor d config h ro = Inr w \<and>
                Warning_save w (Warning_render br w) = Inr (d, w)) \<and>
           (\<exists>l. Legacy_constructor d (Some c) h ro = Inr l \<and>
                Legacy_save l (Legacy_render br l) = Inr (d, l))) \<and>
         (styles_input h \<noteq> ''cdx-success__message'' \<and>
          querySelector_list ''cdx-success__message'' (innerHTML_children br t) = None \<longrightarrow>
           (\<exists>s. Success_constructor d (Some c) h ro = Inr s \<and>
                Success_save s (Success_render br s) = Inr (d, s)))"
proof -
  have d: "d = \<lparr>title = Some t, message = Some m\<rparr>"
    using assms(1,2) by (rule WarningData_eq)
  have j: "js_or (Some t) [] = t" "js_or (Some m) [] = m" by simp_all
  show ?thesis
    unfolding d
    using assms(3,4)
    by (auto simp: Warning_constructor_def Warning_save_def Warning_render_shape
        Success_constructor_def Success_save_def Success_render_shape
        Legacy_constructor_def Legacy_save_def Legacy_render_shape
        hasClass_def tokens_add_def Let_def j simp del: js_or.simps)
qed

theorem save_render_roundtrip_witness:
  "title (data ex_tool) = Some ''Note'' \<and> message (data ex_tool) = Some ''Text'' \<and>
   innerHTML_read ex_browser ''Note'' = ''Note'' \<and>
   innerHTML_read ex_browser ''Text'' = ''Text'' \<and>
   styles_input host_api \<noteq> ''cdx-warning__message'' \<and>
   querySelector_list ''cdx-warning__message'' (innerHTML_children ex_browser ''Note'') = None \<and>
   styles_input host_api \<noteq> ''cdx-success__message'' \<and>
   querySelector_list ''cdx-success__message'' (innerHTML_children ex_browser ''Note'') = None \<and>
   Warning_constructor (data ex_tool) None host_api True = Inr ex_warning \<and>
   Warning_save ex_warning (Warning_render ex_browser ex_warning) = Inr (data ex_tool, ex_warning) \<and>
   Success_constructor (data ex_tool)
     (Some \<lparr>cfg_titlePlaceholder = None, cfg_messagePlaceholder = None\<rparr>) host_api True = Inr ex_tool \<and>
   Success_save ex_tool (Success_render ex_browser ex_tool) = Inr (data ex_tool, ex_tool) \<and>
   Legacy_save ex_tool (Legacy_render ex_browser ex_tool) = Inr (data ex_tool, ex_tool)"
proof -
  have p: "plain_text ''Note''" "plain_text ''Text''"
    by (simp_all add: plain_text_def)
  have h1: "title (data ex_tool) = Some ''Note''" and h2: "message (data ex_tool) = Some ''Text''"
    by (simp_all add: ex_tool_def)
  have h3: "innerHTML_read ex_browser ''Note'' = ''Note''"
    and h4: "innerHTML_read ex_browser ''Text'' = ''Text''"
    and h5: "innerHTML_children ex_browser ''Note'' = []"
    using p plain_text_passes_innerHTML by blast+
  show ?thesis
    using save_render_roundtrip [OF h1 h2 h3 h4, where h = host_api and config = None and ro = True
        and c = "\<lparr>cfg_titlePlaceholder = None, cfg_messagePlaceholder = None\<rparr>"]
      h3 h4 h5
    by (simp add: Warning_constructor_def Success_constructor_def Legacy_constructor_def
        ex_tool_def ex_warning_def host_api_def
        DEFAULT_TITLE_PLACEHOLDER_def DEFAULT_MESSAGE_PLACEHOLDER_def)
qed

section \<open>Claims about the static declarations\<close>

text \<open>
  C9: every class with the static interface of the host (the TypeScript \<open>Warning\<close>,
  \<open>Success\<close> and the typed tool) declares a sanitize policy whose entries are the
  fields of its data, \<open>title\<close> and \<open>message\<close> or \<open>type\<close> and \<open>message\<close>, each with the
  empty set of allowed tags. The legacy class for CodeX Editor has another static
  interface and is not among them.
\<close>

theorem sanitize_strips_every_field:
  assumes "cls \<noteq> WarningLegacyJS"
  shows "\<exists>p. sanitize cls = Some p \<and> map fst p = data_fields cls \<and>
           (\<forall>f \<in> set (data_fields cls). map_of p f = Some [])"
  using assms
  by (cases cls) (simp_all add: Warning_sanitize_def Success_sanitize_def Alert_sanitize_def)

theorem sanitize_strips_every_field_witness:
  "AlertJS \<noteq> WarningLegacyJS \<and>
   sanitize AlertJS = Some [(''type'', []), (''message'', [])] \<and>
   data_fields AlertJS = [''type'', ''message'']"
proof -
  have h: "AlertJS \<noteq> WarningLegacyJS" by simp
  show ?thesis
    using sanitize_strips_every_field [OF h] by (simp add: Alert_sanitize_def)
qed

section \<open>Claims about \<open>save\<close>\<close>

text \<open>
  C1 (as stated: for every variant and every root element, also one lacking the title
  or message sub-element, \<open>save\<close> never throws, a missing sub-element gives the empty
  string, and every field of the result is present). The statement fails for the
  JavaScript classes: \<open>Success.save\<close> on a root element without sub-elements raises a
  \<open>TypeError\<close>.
\<close>

theorem Success_save_missing_region_throws:
  "Success_save ex_tool (createElement ''div'') = Inl TypeError"
  by (simp add: Success_save_def createElement_def)

text \<open>
  C1 (amended): the TypeScript \<open>Warning.save\<close> returns for every root element, with
  both fields present and the empty string for a missing sub-element. \<open>save\<close> of
  \<open>Success\<close> and of the legacy \<open>Warning\<close> returns with both fields present when both
  sub-elements are found, and \<open>save\<close> of the typed tool returns when the message
  sub-element is found, with the message present and the type as the tool holds it.
\<close>

theorem save_returns_populated:
  "(\<exists>d w'. Warning_save w el = Inr (d, w') \<and> title d \<noteq> None \<and> message d \<noteq> None \<and>
      (querySelector ''cdx-warning__title'' el = None \<longrightarrow> title d = Some []) \<and>
      (querySelector ''cdx-warning__message'' el = None \<longrightarrow> message d = Some [])) \<and>
   (querySelector ''cdx-success__title'' el_s \<noteq> None \<and>
    querySelector ''cdx-success__message'' el_s \<noteq> None \<longrightarrow>
      (\<exists>d s'. Success_save s el_s = Inr (d, s') \<and> title d \<noteq> None \<and> message d \<noteq> None)) \<and>
   (querySelector ''cdx-warning__title'' el_l \<noteq> None \<and>
    querySelector ''cdx-warning__message'' el_l \<noteq> None \<longrightarrow>
      (\<exists>d l'. Legacy_save l el_l = Inr (d, l') \<and> title d \<noteq> None \<and> message d \<noteq> None)) \<and>
   (querySelector ''cdx-warning__message'' el_a \<noteq> None \<longrightarrow>
      (\<exists>d a'. Alert_save a el_a = Inr (d, a') \<and> alert_message d \<noteq> None \<and>
          alert_type d = alert_type (a_data a)))"
  by (auto simp: Warning_save_def Success_save_def Legacy_save_def Alert_save_def Let_def)

theorem save_returns_populated_witness:
  "querySelector ''cdx-warning__title'' (createElement ''div'') = None \<and>
   querySelector ''cdx-warning__message'' (createElement ''div'') = None \<and>
   Warning_save ex_warning (createElement ''div'') =
     Inr (\<lparr>title = Some [], message = Some []\<rparr>,
          ex_warning\<lparr>data := \<lparr>title = Some [], message = Some []\<rparr>\<rparr>) \<and>
   querySelector ''cdx-success__title'' (Success_render ex_browser ex_tool) \<noteq> None \<and>
   querySelector ''cdx-success__message'' (Success_render ex_browser ex_tool) \<noteq> None \<and>
   Success_save ex_tool (Success_render ex_browser ex_tool) = Inr (data ex_tool, ex_tool) \<and>
   querySelector ''cdx-warning__title'' (Legacy_render ex_browser ex_tool) \<noteq> None \<and>
   querySelector ''cdx-warning__message'' (Legacy_render ex_browser ex_tool) \<noteq> None \<and>
   Legacy_save ex_tool (Legacy_render ex_browser ex_tool) = Inr (data ex_tool, ex_tool) \<and>
   querySelector ''cdx-warning__message'' ex_edited \<noteq> None \<and>
   Alert_save ex_alert ex_edited =
     Inr (\<lparr>alert_type = Some ''info'', alert_message = Some ''new''\<rparr>, ex_alert)"
  using save_returns_populated [where w = ex_warning and el = "createElement ''div''"
      and el_s = "Success_render ex_browser ex_tool" and s = ex_tool
      and el_l = "Legacy_render ex_browser ex_tool" and l = ex_tool
      and el_a = ex_edited and a = ex_alert]
  by (simp add: Warning_save_def Success_save_def Legacy_save_def Alert_save_def
      Success_render_shape Legacy_render_shape ex_tool_def ex_warning_def ex_alert_def
      ex_edited_def host_api_def createElement_def make_el_def hasClass_def tokens_add_def Let_def
      innerHTML_eval)

text \<open>
  C8 (as stated: for every variant \<open>save\<close> merges the values read into the internal
  data in place, and for the typed variant leaves the type untouched and refreshes
  the message). The statement fails for the typed tool: its \<open>save\<close> returns a new
  object and the internal message stays as it was.
\<close>

theorem Alert_save_keeps_internal_message:
  "Alert_save ex_alert ex_edited =
     Inr (\<lparr>alert_type = Some ''info'', alert_message = Some ''new''\<rparr>, ex_alert) \<and>
   alert_message (a_data ex_alert) = Some ''old''"
  by (simp add: Alert_save_def ex_alert_def ex_edited_def createElement_def make_el_def
      hasClass_def tokens_add_def innerHTML_eval)

text \<open>
  C8 (amended): \<open>save\<close> of the TypeScript \<open>Warning\<close>, and \<open>save\<close> of \<open>Success\<close> and of
  the legacy \<open>Warning\<close> when both sub-elements are found, write the values read into
  the internal data in place and return that data. \<open>save\<close> of the typed tool, when
  the message sub-element is found, returns a new object with the internal type and
  the message read, and leaves the internal data, type and message, as it was.
\<close>

theorem save_effect_on_internal_data:
  "(\<exists>d. Warning_save w el = Inr (d, w\<lparr>data := d\<rparr>) \<and>
      title d = Some (case querySelector ''cdx-warning__title'' el of
                        None \<Rightarrow> [] | Some e \<Rightarrow> innerHTML (node e)) \<and>
      message d = Some (case querySelector ''cdx-warning__message'' el of
                        None \<Rightarrow> [] | Some e \<Rightarrow> innerHTML (node e))) \<and>
   (querySelector ''cdx-success__title'' el_s = Some t \<and>
    querySelector ''cdx-success__message'' el_s = Some m \<longrightarrow>
      (\<exists>d. Success_save s el_s = Inr (d, s\<lparr>data := d\<rparr>) \<and>
         title d = Some (innerHTML (node t)) \<and> message d = Some (innerHTML (node m)))) \<and>
   (querySelector ''cdx-warning__title'' el_l = Some t' \<and>
    querySelector ''cdx-warning__message'' el_l = Some m' \<longrightarrow>
      (\<exists>d. Legacy_save l el_l = Inr (d, l\<lparr>data := d\<rparr>) \<and>
         title d = Some (innerHTML (node t')) \<and> message d = Some (innerHTML (node m')))) \<and>
   (querySelector ''cdx-warning__message'' el_a = Some n \<longrightarrow>
      (\<exists>d. Alert_save a el_a = Inr (d, a) \<and>
         alert_type d = alert_type (a_data a) \<and>
         alert_message d = Some (innerHTML (node n))))"
  by (cases "querySelector ''cdx-warning__title'' el"; cases "querySelector ''cdx-warning__message'' el")
     (auto simp: Warning_save_def Success_save_def Legacy_save_def Alert_save_def Let_def)

theorem save_effect_on_internal_data_witness:
  "Warning_save ex_warning ex_edited =
     Inr (\<lparr>title = Some [], message = Some ''new''\<rparr>,
          ex_warning\<lparr>data := \<lparr>title = Some [], message = Some ''new''\<rparr>\<rparr>) \<and>
   querySelector ''cdx-success__title'' (Success_render ex_browser ex_tool) =
     Some (childNodes (Success_render ex_browser ex_tool) ! 0) \<and>
   querySelector ''cdx-success__message'' (Success_render ex_browser ex_tool) =
     Some (childNodes (Success_render ex_browser ex_tool) ! 1) \<and>
   Success_save ex_tool (Success_render ex_browser ex_tool) = Inr (data ex_tool, ex_tool) \<and>
   querySelector ''cdx-warning__title'' (Legacy_render ex_browser ex_tool) =
     Some (childNodes (Legacy_render ex_browser ex_tool) ! 0) \<and>
   querySelector ''cdx-warning__message'' (Legacy_render ex_browser ex_tool) =
     Some (childNodes (Legacy_render ex_browser ex_tool) ! 1) \<and>
   Legacy_save ex_tool (Legacy_render ex_browser ex_tool) = Inr (data ex_tool, ex_tool) \<and>
   querySelector ''cdx-warning__message'' ex_edited = Some (childNodes ex_edited ! 0) \<and>
   Alert_save ex_alert ex_edited =
     Inr (\<lparr>alert_type = Some ''info'', alert_message = Some ''new''\<rparr>, ex_alert)"
  using save_effect_on_internal_data [where w = ex_warning and el = ex_edited
      and el_s = "Success_render ex_browser ex_tool" and t = "childNodes (Success_render ex_browser ex_tool) ! 0"
      and m = "childNodes (Success_render ex_browser ex_tool) ! 1" and s = ex_tool
      and el_l = "Legacy_render ex_browser ex_tool" and t' = "childNodes (Legacy_render ex_browser ex_tool) ! 0"
      and m' = "childNodes (Legacy_render ex_browser ex_tool) ! 1" and l = ex_tool
      and el_a = ex_edited and n = "childNodes ex_edited ! 0" and a = ex_alert]
  by (simp add: Warning_save_def Success_save_def Legacy_save_def Alert_save_def
      Success_render_shape Legacy_render_shape ex_tool_def ex_warning_def ex_alert_def
      ex_edited_def host_api_def createElement_def make_el_def hasClass_def tokens_add_def Let_def
      innerHTML_eval)

section \<open>Claims about the type switch\<close>

text \<open>
  C6: for every typed tool with current type \<open>A\<close> and every recognized key \<open>B\<close>,
  selecting the control of \<open>B\<close> sets the type to \<open>B\<close>, removes the modifier class of
  \<open>A\<close> from the container and adds that of \<open>B\<close>. The code misses a case: the
  constructor checks the given type against the keys of \<open>typeColor\<close> but not the
  default type, and the loop of \<open>_changeAlertType\<close>, whose comment reads
  \<open>Remove the old Alert type class\<close>, removes the classes of the keys only. With
  default type \<open>info\<close>, \<open>typeColor = { warning: "#ff0" }\<close> and data without a type, the
  current type is \<open>info\<close>, and after the control of \<open>warning\<close> is selected the
  container still carries \<open>cdx-warning-info\<close>, beside \<open>cdx-warning-warning\<close>.
\<close>

theorem unrecognized_current_type_class_stays:
  "Alert_constructor \<lparr>alert_type = None, alert_message = None\<rparr>
     (Some \<lparr>acfg_messagePlaceholder = None, acfg_defaultType = Some ''info'',
            acfg_typeColor = Some [(''warning'', ''#ff0'')]\<rparr>) host_api False = Inr ex_alert_default \<and>
   alert_type (a_data (snd (Alert_render ex_browser ex_alert_default))) = Some ''info'' \<and>
   Object_keys (a_config_typeColor (snd (Alert_render ex_browser ex_alert_default))) = [''warning''] \<and>
   container_classList (snd (Alert_render ex_browser ex_alert_default)) = [''cdx-warning'', ''cdx-warning-info''] \<and>
   container_classList
     (fst (projr (settingsButton_click 0 (snd (Alert_render ex_browser ex_alert_default))
                    (renderSettings ex_browser (snd (Alert_render ex_browser ex_alert_default))))))
     = [''cdx-warning'', ''cdx-warning-info'', ''cdx-warning-warning'']"
  by (simp add: Alert_constructor_def ex_alert_default_def host_api_def Object_keys_def
      DEFAULT_MESSAGE_PLACEHOLDER_def Alert_render_def settingsButton_click_def
      changeAlertType_def container_classList_def make_el_def createElement_def
      wrapperForType_def Alert_CSS_def lookup_def tokens_add_def tokens_remove_def Let_def)

text \<open>
  The switch from a current type \<open>A\<close> that is a key of \<open>typeColor\<close>: on a rendered
  tool, with a settings container as \<open>renderSettings\<close> builds it or a click leaves
  it, the click on the control of a key \<open>B\<close> returns, sets the type to \<open>B\<close>, leaves
  the container with the modifier class of \<open>B\<close> and, when \<open>A \<noteq> B\<close>, without that of
  \<open>A\<close>, sets the colour of the background to \<open>typeColor[B]\<close>, and leaves the active
  class on the control of \<open>B\<close> and on no other control. The tool stays rendered and
  the settings container stays as described, so the same holds for the next click.
\<close>

theorem type_switch:
  assumes r: "rendered this" and inv: "settings_inv this sc"
    and d: "distinct (Object_keys (a_config_typeColor this))"
    and i: "i < length (Object_keys (a_config_typeColor this))"
    and B: "Object_keys (a_config_typeColor this) ! i = B"
    and A: "alert_type (a_data this) = Some A" "A \<in> set (Object_keys (a_config_typeColor this))"
  shows "\<exists>this' sc'. settingsButton_click i this sc = Inr (this', sc') \<and>
           alert_type (a_data this') = Some B \<and>
           wrapperForType (Some B) \<in> set (container_classList this') \<and>
           (A \<noteq> B \<longrightarrow> wrapperForType (Some A) \<notin> set (container_classList this')) \<and>
           map_option (\<lambda>e. style_backgroundColor (node e)) (Alert_background this') =
             Some (lookup (a_config_typeColor this) B) \<and>
           (\<forall>j < length (Object_keys (a_config_typeColor this)).
              map_option (hasClass (styles_settingsButtonActive (a_api this))) (child (Suc j) sc') =
                Some (Object_keys (a_config_typeColor this) ! j = B)) \<and>
           rendered this' \<and> settings_inv this' sc'"
proof -
  let ?ks = "Object_keys (a_config_typeColor this)"
  let ?sb = "styles_settingsButton (a_api this)"
  let ?act = "styles_settingsButtonActive (a_api this)"
  have Bin: "B \<in> set ?ks" using i B by auto
  from changeAlertType_effect[OF r, of B] Bin obtain this' where
    t: "changeAlertType B this = Inr this'" "rendered this'"
       "a_data this' = (a_data this)\<lparr>alert_type := Some B\<rparr>" "a_api this' = a_api this"
       "a_config_typeColor this' = a_config_typeColor this"
       "set (container_classList this') =
             (set (container_classList this) - (\<lambda>k. wrapperForType (Some k)) ` set ?ks)
               \<union> {wrapperForType (Some B)}"
       "map_option (\<lambda>e. style_backgroundColor (node e)) (Alert_background this') =
             Some (lookup (a_config_typeColor this) B)"
    by auto
  let ?u = "\<lambda>e. if hasClass ?sb e then classList_remove ?act (unhighlight ?sb ?act e)
               else unhighlight ?sb ?act e"
  let ?sc' = "update_child (Suc i) (classList_add [?act]) (unhighlight ?sb ?act sc)"
  have click: "settingsButton_click i this sc = Inr (this', ?sc')"
    using i B t by (simp add: settingsButton_click_def Let_def)
  have len: "length (childNodes sc) = Suc (length ?ks)"
    using inv by (simp add: settings_inv_def)
  have allinv: "hasClass ?sb (childNodes sc ! Suc j)"
    if j: "j < length ?ks" and h: "hasClass ?act (childNodes sc ! Suc j)" for j
  proof -
    have "tl (childNodes sc) ! j = childNodes sc ! Suc j"
      using len j by (simp add: nth_tl)
    moreover have "tl (childNodes sc) ! j \<in> set (tl (childNodes sc))"
      using len j by simp
    ultimately show ?thesis
      using inv h by (auto simp: settings_inv_def list_all_iff)
  qed
  have ch: "childNodes ?sc' =
      (map ?u (childNodes sc))[Suc i := classList_add [?act] (?u (childNodes sc ! Suc i))]"
    using i len by (cases sc) (simp add: childNodes_unhighlight)
  have ctl: "hasClass ?act (childNodes ?sc' ! Suc j) = (j = i)" if j: "j < length ?ks" for j
  proof (cases "j = i")
    case True
    then show ?thesis using i len by (simp add: ch)
  next
    case False
    then show ?thesis using j len allinv[OF j] by (auto simp: ch)
  qed
  have len': "length (childNodes ?sc') = Suc (length ?ks)"
    using len by (simp add: ch)
  have inv': "settings_inv this' ?sc'"
  proof (cases "?act = ?sb")
    case True
    then show ?thesis using len' by (simp add: settings_inv_def t(4) t(5))
  next
    case False
    with inv have all: "\<forall>e \<in> set (tl (childNodes sc)). hasClass ?sb e"
      by (simp add: settings_inv_def list_all_iff)
    have "\<forall>e \<in> set (tl (childNodes ?sc')). hasClass ?sb e"
    proof
      fix e assume e: "e \<in> set (tl (childNodes ?sc'))"
      from e obtain j where j: "j < length (tl (childNodes ?sc'))" "e = tl (childNodes ?sc') ! j"
        by (auto simp: in_set_conv_nth)
      then have j': "j < length ?ks" "e = childNodes ?sc' ! Suc j"
        using len' by (simp_all add: nth_tl)
      have "tl (childNodes sc) ! j \<in> set (tl (childNodes sc))"
        using len j'(1) by simp
      then have "hasClass ?sb (childNodes sc ! Suc j)"
        using all len j'(1) by (simp add: nth_tl)
      then show "hasClass ?sb e"
        using j' len False by (cases "j = i") (auto simp: ch)
    qed
    then show ?thesis using len' by (simp add: settings_inv_def t(4) t(5) list_all_iff)
  qed
  have keysB: "(?ks ! j = B) = (j = i)" if "j < length ?ks" for j
    using that d i B by (auto simp: nth_eq_iff_index_eq)
  have ctl2: "\<forall>j < length ?ks. map_option (hasClass ?act) (child (Suc j) ?sc') = Some (?ks ! j = B)"
    using len' ctl keysB by (simp add: child_eq)
  have Bcl: "wrapperForType (Some B) \<in> set (container_classList this')"
    using t(6) by simp
  have Acl: "A \<noteq> B \<longrightarrow> wrapperForType (Some A) \<notin> set (container_classList this')"
    using t(6) A(2) by auto
  show ?thesis
    using click t(2) t(3) t(7) inv' ctl2 Bcl Acl by simp
qed

theorem type_switch_witness:
  "rendered (snd (Alert_render ex_browser ex_alert)) \<and>
   settings_inv (snd (Alert_render ex_browser ex_alert)) (renderSettings ex_browser (snd (Alert_render ex_browser ex_alert))) \<and>
   distinct (Object_keys (a_config_typeColor (snd (Alert_render ex_browser ex_alert)))) \<and>
   1 < length (Object_keys (a_config_typeColor (snd (Alert_render ex_browser ex_alert)))) \<and>
   Object_keys (a_config_typeColor (snd (Alert_render ex_browser ex_alert))) ! 1 = ''danger'' \<and>
   alert_type (a_data (snd (Alert_render ex_browser ex_alert))) = Some ''info'' \<and>
   ''info'' \<in> set (Object_keys (a_config_typeColor (snd (Alert_render ex_browser ex_alert)))) \<and>
   alert_type (a_data (fst (projr (settingsButton_click 1 (snd (Alert_render ex_browser ex_alert))
       (renderSettings ex_browser (snd (Alert_render ex_browser ex_alert))))))) = Some ''danger'' \<and>
   container_classList (fst (projr (settingsButton_click 1 (snd (Alert_render ex_browser ex_alert))
       (renderSettings ex_browser (snd (Alert_render ex_browser ex_alert))))))
     = [''cdx-warning'', ''cdx-warning-danger''] \<and>
   map_option (\<lambda>e. style_backgroundColor (node e))
     (Alert_background (fst (projr (settingsButton_click 1 (snd (Alert_render ex_browser ex_alert))
       (renderSettings ex_browser (snd (Alert_render ex_browser ex_alert)))))))
     = Some (Some ''#f00'') \<and>
   map (hasClass ''cdx-settings-button--active'')
     (tl (childNodes (renderSettings ex_browser (snd (Alert_render ex_browser ex_alert))))) = [True, False] \<and>
   map (hasClass ''cdx-settings-button--active'')
     (tl (childNodes (snd (projr (settingsButton_click 1 (snd (Alert_render ex_browser ex_alert))
       (renderSettings ex_browser (snd (Alert_render ex_browser ex_alert)))))))) = [False, True]"
proof -
  let ?t = "snd (Alert_render ex_browser ex_alert)"
  have h1: "rendered ?t" by (rule rendered_Alert_render)
  have h2: "settings_inv ?t (renderSettings ex_browser ?t)" by (rule renderSettings_inv)
  have ks: "Object_keys (a_config_typeColor ?t) = [''info'', ''danger'']"
    by (simp add: Alert_render_tool ex_alert_def Object_keys_def)
  have h3: "distinct (Object_keys (a_config_typeColor ?t))" by (simp add: ks)
  have h4: "1 < length (Object_keys (a_config_typeColor ?t))" by (simp add: ks)
  have h5: "Object_keys (a_config_typeColor ?t) ! 1 = ''danger''" by (simp add: ks)
  have h6: "alert_type (a_data ?t) = Some ''info''"
    by (simp add: Alert_render_tool ex_alert_def)
  have h7: "''info'' \<in> set (Object_keys (a_config_typeColor ?t))" by (simp add: ks)
  have ev: "alert_type (a_data (fst (projr (settingsButton_click 1 ?t (renderSettings ex_browser ?t))))) = Some ''danger'' \<and>
    container_classList (fst (projr (settingsButton_click 1 ?t (renderSettings ex_browser ?t))))
     = [''cdx-warning'', ''cdx-warning-danger''] \<and>
    map_option (\<lambda>e. style_backgroundColor (node e))
     (Alert_background (fst (projr (settingsButton_click 1 ?t (renderSettings ex_browser ?t)))))
     = Some (Some ''#f00'') \<and>
    map (hasClass ''cdx-settings-button--active'')
     (tl (childNodes (renderSettings ex_browser ?t))) = [True, False] \<and>
    map (hasClass ''cdx-settings-button--active'')
     (tl (childNodes (snd (projr (settingsButton_click 1 ?t (renderSettings ex_browser ?t)))))) = [False, True]"
    by (simp add: ex_alert_def host_api_def Object_keys_def
      Alert_render_def settingsButton_click_def renderSettings_def make_settingsButton_def
      changeAlertType_def container_classList_def Alert_background_def make_el_def createElement_def
      wrapperForType_def Alert_CSS_def lookup_def tokens_add_def tokens_remove_def hasClass_def Let_def)
  show ?thesis
    using type_switch [OF h1 h2 h3 h4 h5 h6 h7] h1 h2 h3 h4 h5 h6 h7 ev by blast
qed


end
